theory Spec2Isabelle
  imports Complex_Main "HOL-Library.AList"
begin

section \<open>Python values, pandas frames and the external libraries\<close>

text \<open>
  The program is a single Python module, \<^verbatim>\<open>power_predictor.py\<close>: a class
  \<^verbatim>\<open>PowerForecaster\<close> that glues pandas frames to forecasting libraries.
  Exceptions are values of a sum type, frames are tables of rows, and every call into a
  library or into the helper modules \<^verbatim>\<open>model_util\<close> and \<^verbatim>\<open>utility\<close>
  (which the module imports) goes through a record of functions, so that the
  theorems hold whatever those functions compute.
\<close>

datatype error =
  ValueError | TypeError | KeyError | IndexError | AttributeError | OverflowError

fun and_then :: "error + 'a \<Rightarrow> ('a \<Rightarrow> error + 'b) \<Rightarrow> error + 'b" where
  "and_then (Inl e) f = Inl e"
| "and_then (Inr x) f = f x"

text \<open>
  A pandas timestamp is a number of seconds since the epoch, or \<^verbatim>\<open>NaT\<close>, the
  missing timestamp. Every ordering comparison with \<^verbatim>\<open>NaT\<close> is false.
\<close>

datatype timestamp = NaT | At int

fun ts_lt :: "timestamp \<Rightarrow> timestamp \<Rightarrow> bool" where
  "ts_lt (At a) (At b) = (a < b)"
| "ts_lt _ _ = False"

fun ts_ge :: "timestamp \<Rightarrow> timestamp \<Rightarrow> bool" where
  "ts_ge (At a) (At b) = (a \<ge> b)"
| "ts_ge _ _ = False"

text \<open>
  A Python float is a finite value (the rational it denotes), an infinity or a NaN.
  \<^verbatim>\<open>int(x)\<close> truncates a finite float toward zero and raises on the others.
\<close>

datatype pyfloat = Finite rat | PosInf | NegInf | NaN

fun py_int :: "pyfloat \<Rightarrow> error + int" where
  "py_int (Finite q) = Inr (if 0 \<le> q then \<lfloor>q\<rfloor> else \<lceil>q\<rceil>)"
| "py_int NaN = Inl ValueError"
| "py_int PosInf = Inl OverflowError"
| "py_int NegInf = Inl OverflowError"

text \<open>
  Python sequence access: a negative index counts from the end and an index out of
  range raises; a slice bound is clamped to the sequence instead.
\<close>

definition py_getitem :: "'a list \<Rightarrow> int \<Rightarrow> error + 'a" where
  "py_getitem xs i =
     (let j = (if i < 0 then int (length xs) + i else i)
      in if 0 \<le> j \<and> j < int (length xs) then Inr (xs ! nat j) else Inl IndexError)"

definition slice_bound :: "nat \<Rightarrow> int \<Rightarrow> nat" where
  "slice_bound n k = (if k < 0 then nat (int n + k) else min n (nat k))"

definition slice_to :: "int \<Rightarrow> 'a list \<Rightarrow> 'a list" where
  "slice_to k xs = take (slice_bound (length xs) k) xs"

definition slice_from :: "int \<Rightarrow> 'a list \<Rightarrow> 'a list" where
  "slice_from k xs = drop (slice_bound (length xs) k) xs"

subsection \<open>Frames\<close>

text \<open>
  A cell holds a number, a string, a timestamp or nothing (pandas' NaN). A frame has a
  header of column names and a list of rows; a row is its index label and its cells by
  column name.
\<close>

datatype cell = Num rat | Str string | Stamp timestamp | Missing

type_synonym row = "timestamp \<times> (string \<times> cell) list"

record dataframe =
  columns :: "string list"
  rows :: "row list"

definition index_of :: "dataframe \<Rightarrow> timestamp list" where
  "index_of d = map fst (rows d)"

definition cell_of :: "row \<Rightarrow> string \<Rightarrow> cell" where
  "cell_of r c = (case map_of (snd r) c of Some v \<Rightarrow> v | None \<Rightarrow> Missing)"

text \<open>\<^verbatim>\<open>d[c]\<close>: the values of one column; a missing column raises \<^verbatim>\<open>KeyError\<close>.\<close>

definition getitem :: "dataframe \<Rightarrow> string \<Rightarrow> error + cell list" where
  "getitem d c =
     (if c \<in> set (columns d) then Inr (map (\<lambda>r. cell_of r c) (rows d)) else Inl KeyError)"

text \<open>\<^verbatim>\<open>d[cs]\<close> with a list of names: the frame restricted to those columns.\<close>

definition getitems :: "dataframe \<Rightarrow> string list \<Rightarrow> error + dataframe" where
  "getitems d cs =
     (if set cs \<subseteq> set (columns d)
      then Inr \<lparr>columns = cs,
                rows = map (\<lambda>r. (fst r, map (\<lambda>c. (c, cell_of r c)) cs)) (rows d)\<rparr>
      else Inl KeyError)"

text \<open>
  \<^verbatim>\<open>d[c] = values\<close>: the column is overwritten, or appended when new; values of
  another length raise \<^verbatim>\<open>ValueError\<close>.
\<close>

definition setitem :: "dataframe \<Rightarrow> string \<Rightarrow> cell list \<Rightarrow> error + dataframe" where
  "setitem d c vs =
     (if length vs = length (rows d)
      then Inr \<lparr>columns = (if c \<in> set (columns d) then columns d else columns d @ [c]),
                rows = map (\<lambda>(r, v). (fst r, AList.update c v (snd r))) (zip (rows d) vs)\<rparr>
      else Inl ValueError)"

text \<open>\<^verbatim>\<open>d.index = labels\<close>: labels of another length raise \<^verbatim>\<open>ValueError\<close>.\<close>

definition set_index :: "dataframe \<Rightarrow> timestamp list \<Rightarrow> error + dataframe" where
  "set_index d labels =
     (if length labels = length (rows d)
      then Inr (d\<lparr>rows := map (\<lambda>(l, r). (l, snd r)) (zip labels (rows d))\<rparr>)
      else Inl ValueError)"

text \<open>\<^verbatim>\<open>d.rename(columns={old: new})\<close> returns a new frame.\<close>

definition rename :: "dataframe \<Rightarrow> string \<Rightarrow> string \<Rightarrow> dataframe" where
  "rename d old new =
     (let f = (\<lambda>c. if c = old then new else c)
      in \<lparr>columns = map f (columns d),
          rows = map (\<lambda>r. (fst r, map (\<lambda>(c, v). (f c, v)) (snd r))) (rows d)\<rparr>)"

text \<open>\<^verbatim>\<open>d.iloc[:k, :]\<close> and \<^verbatim>\<open>d.iloc[k:, :]\<close>: row slices by position.\<close>

definition iloc_to :: "int \<Rightarrow> dataframe \<Rightarrow> dataframe" where
  "iloc_to k d = d\<lparr>rows := slice_to k (rows d)\<rparr>"

definition iloc_from :: "int \<Rightarrow> dataframe \<Rightarrow> dataframe" where
  "iloc_from k d = d\<lparr>rows := slice_from k (rows d)\<rparr>"

text \<open>\<^verbatim>\<open>d[mask]\<close> with a boolean mask computed from the index.\<close>

definition where_index :: "(timestamp \<Rightarrow> bool) \<Rightarrow> dataframe \<Rightarrow> dataframe" where
  "where_index p d = d\<lparr>rows := filter (\<lambda>r. p (fst r)) (rows d)\<rparr>"


text \<open>
  \<^verbatim>\<open>d[keys] = value\<close> with a list of names and a frame on the right: the names
  are paired with the columns of \<^verbatim>\<open>value\<close> in order; the two frames carry the
  same index here, so the values are assigned by position.
\<close>

fun assign_columns ::
  "dataframe \<Rightarrow> (string \<times> string) list \<Rightarrow> dataframe \<Rightarrow> error + dataframe" where
  "assign_columns d [] v = Inr d"
| "assign_columns d ((k1, k2) # ks) v =
     and_then (getitem v k2) (\<lambda>vs.
     and_then (setitem d k1 vs) (\<lambda>d'. assign_columns d' ks v))"

definition setitem_frame :: "dataframe \<Rightarrow> string list \<Rightarrow> dataframe \<Rightarrow> error + dataframe" where
  "setitem_frame d keys v =
     (if length (columns v) \<noteq> length keys then Inl ValueError
      else assign_columns d (zip keys (columns v)) v)"

text \<open>\<^verbatim>\<open>d.dropna()\<close>: the rows without a missing cell.\<close>

definition dropna :: "dataframe \<Rightarrow> dataframe" where
  "dropna d = d\<lparr>rows := filter (\<lambda>r. list_all (\<lambda>c. cell_of r c \<noteq> Missing) (columns d)) (rows d)\<rparr>"

subsection \<open>Constants of the module\<close>

text \<open>
  The values of the enumerations \<^verbatim>\<open>Constants\<close> and \<^verbatim>\<open>ColumnNames\<close>. The float
  written \<^verbatim>\<open>0.8\<close> is the double nearest to it; the cutoff date 2013-12-01 is 16040
  days after the epoch.
\<close>

definition TRAIN_TEST_SPLIT_RATIO :: pyfloat where
  "TRAIN_TEST_SPLIT_RATIO = Finite (3602879701896397 / 4503599627370496)"

definition CUTOFF_DATE :: timestamp where
  "CUTOFF_DATE = At (16040 * 86400)"

definition FORECASTED_TEMPERATURE_FILE :: string where
  "FORECASTED_TEMPERATURE_FILE = ''data/temp_interpolated_load_temperature_data.pickle''"

definition DEFAULT_FUTURE_PERIODS :: int where
  "DEFAULT_FUTURE_PERIODS = 4 * 24 * 10"

definition DEFAULT_FUTURE_FREQ :: string where
  "DEFAULT_FUTURE_FREQ = ''15T''"

definition SARIMAX_ORDER :: "int list" where
  "SARIMAX_ORDER = [7, 1, 7]"

definition SARIMAX_SEASONAL_ORDER :: "int list" where
  "SARIMAX_SEASONAL_ORDER = [0, 0, 0, 0, 12]"

definition EPOCHS :: int where
  "EPOCHS = 5"

definition BATCH_SIZE :: int where
  "BATCH_SIZE = 72"

definition POWER :: string where
  "POWER = ''actual_kwh''"

definition TEMPERATURE :: string where
  "TEMPERATURE = ''actual_temperature''"

definition LABEL :: string where
  "LABEL = ''y''"

definition FORECAST :: string where
  "FORECAST = ''yhat''"

definition DATE :: string where
  "DATE = ''date''"

definition TIME :: string where
  "TIME = ''time''"

definition DATE_STAMP :: string where
  "DATE_STAMP = ''ds''"

definition FEATURES :: "string list" where
  "FEATURES = [LABEL, TEMPERATURE]"

definition LABELS :: "string list" where
  "LABELS = [LABEL]"

subsection \<open>The libraries and helper modules\<close>

text \<open>
  \<^verbatim>\<open>Models\<close> enumerates the four forecasting models; an attribute
  \<^verbatim>\<open>self.model\<close> may hold any other Python object as well, compared by identity.
\<close>

datatype models = PROPHET | LSTM | ARIMA | VAR | Unlisted string

datatype transformer = QuantileTransformer

text \<open>
  What the forecaster's data attributes may hold: a frame (a series is a frame of one
  column), or a numpy array of two or three dimensions.
\<close>

datatype table = Frame dataframe | Array2 "cell list list" | Array3 "cell list list list"

text \<open>
  An object that lives inside a library (a constructed model, a fit result, a training
  history) is a handle; the state of all such objects, of the files and of the fitted
  transformer is one value \<open>'w\<close> that every effectful call takes and returns.
  \<^verbatim>\<open>str(t)[:10]\<close>, the calendar day of a timestamp as text, is the number of that
  day, or the text \<^verbatim>\<open>NaT\<close>.
\<close>

type_synonym handle = nat

datatype datekey = Day int | NaTText

fun date_text :: "timestamp \<Rightarrow> datekey" where
  "date_text (At t) = Day (t div 86400)"
| "date_text NaT = NaTText"

record 'w library =
  float_mul :: "pyfloat \<Rightarrow> int \<Rightarrow> pyfloat"
  float_sub :: "pyfloat \<Rightarrow> pyfloat \<Rightarrow> pyfloat"
  series_add :: "cell list \<Rightarrow> cell list \<Rightarrow> error + cell list"
  to_datetime :: "cell list \<Rightarrow> error + timestamp list"
  facebook_prophet_filter ::
    "dataframe \<Rightarrow> string \<Rightarrow> string \<Rightarrow> 'w \<Rightarrow> error + (dataframe \<times> dataframe \<times> 'w)"
  normalize_frame ::
    "dataframe \<Rightarrow> string list \<Rightarrow> transformer \<Rightarrow> 'w \<Rightarrow> error + (dataframe \<times> 'w)"
  explore_data :: "dataframe \<Rightarrow> 'w \<Rightarrow> error + 'w"
  value_fit :: "models \<Rightarrow> dataframe \<Rightarrow> 'w \<Rightarrow> error + 'w"
  value_fit_arrays ::
    "models \<Rightarrow> table \<Rightarrow> table \<Rightarrow> int \<Rightarrow> int \<Rightarrow> table \<times> table \<Rightarrow> 'w
       \<Rightarrow> error + (handle option \<times> 'w)"
  value_make_future_dataframe ::
    "models \<Rightarrow> int \<Rightarrow> string \<Rightarrow> bool \<Rightarrow> 'w \<Rightarrow> error + dataframe"
  value_predict :: "models \<Rightarrow> table \<Rightarrow> 'w \<Rightarrow> error + (table \<times> 'w)"
  sarimax :: "table \<Rightarrow> int list \<Rightarrow> int list \<Rightarrow> 'w \<Rightarrow> error + (handle \<times> 'w)"
  var_model :: "dataframe \<Rightarrow> 'w \<Rightarrow> error + (handle \<times> 'w)"
  model_fit_call :: "handle \<Rightarrow> 'w \<Rightarrow> error + (handle \<times> 'w)"
  summary :: "handle \<Rightarrow> 'w \<Rightarrow> error + 'w"
  results_forecast :: "handle \<Rightarrow> 'w \<Rightarrow> error + 'w"
  results_predict :: "handle \<Rightarrow> datekey \<Rightarrow> datekey \<Rightarrow> bool \<Rightarrow> 'w \<Rightarrow> error + (table \<times> 'w)"
  var_forecast :: "handle \<Rightarrow> int \<Rightarrow> 'w \<Rightarrow> error + (cell list list \<times> 'w)"
  inverse_transform :: "transformer \<Rightarrow> cell list list \<Rightarrow> 'w \<Rightarrow> error + cell list list"
  mean_squared_error :: "cell list \<Rightarrow> cell list \<Rightarrow> error + pyfloat"
  sqrt_float :: "pyfloat \<Rightarrow> error + pyfloat"

text \<open>
  The fields stand for: the float product of a float and an integer and the float
  difference; \<^verbatim>\<open>+\<close> on two series; \<^verbatim>\<open>pd.to_datetime\<close> with the module's
  format and \<^verbatim>\<open>errors='raise'\<close>; the helpers \<^verbatim>\<open>facebook_prophet_filter\<close>
  (which receives the caller's frame by reference and hands it back as it leaves it,
  with the interpolated frame), \<^verbatim>\<open>normalize\<close> (the field \<open>normalize_frame\<close>) and
  \<^verbatim>\<open>explore_data\<close> (an inspection that leaves its frame as it is); the methods
  \<^verbatim>\<open>fit\<close>, \<^verbatim>\<open>make_future_dataframe\<close> and \<^verbatim>\<open>predict\<close> of the object
  \<^verbatim>\<open>self.model.value\<close>; the statsmodels constructors, \<^verbatim>\<open>model.fit()\<close>,
  \<^verbatim>\<open>summary()\<close>, \<^verbatim>\<open>forecast()\<close>, \<^verbatim>\<open>predict(start, end, dynamic)\<close> and
  \<^verbatim>\<open>forecast(y, steps)\<close> of a fit result; the transformer's
  \<^verbatim>\<open>inverse_transform\<close>; sklearn's \<^verbatim>\<open>mean_squared_error\<close>; and
  \<^verbatim>\<open>math.sqrt\<close>.
\<close>

section \<open>The forecaster\<close>

record forecaster =
  df_original :: dataframe
  transformer :: transformer
  df :: dataframe
  testing :: dataframe
  train_test_split_ratio :: pyfloat
  model :: models
  train_X :: table
  test_X :: table
  train_y :: table
  test_y :: table
  model_fit :: "handle option"
  history :: "handle option"
  future :: "dataframe option"

text \<open>
  \<^verbatim>\<open>train_test_split\<close> reads one attribute, \<^verbatim>\<open>self.train_test_split_ratio\<close>,
  which is its second argument here, so that the constructor can call it while the
  object is being built.
\<close>

definition train_test_split ::
  "'w library \<Rightarrow> pyfloat \<Rightarrow> dataframe \<Rightarrow> error + (dataframe \<times> dataframe)" where
  "train_test_split L ratio d =
     and_then (py_int (float_mul L ratio (int (length (rows d))))) (\<lambda>split_index.
       Inr (iloc_to split_index d, iloc_from split_index d))"

text \<open>
  The constructor. Its result is the caller's frame as the call leaves it, the new
  object and the state of the libraries.
\<close>

definition init ::
  "'w library \<Rightarrow> dataframe \<Rightarrow> models \<Rightarrow> pyfloat \<Rightarrow> 'w
     \<Rightarrow> error + (dataframe \<times> forecaster \<times> 'w)" where
  "init L d m ratio w =
     and_then (getitem d DATE) (\<lambda>dates.
     and_then (getitem d TIME) (\<lambda>times.
     and_then (series_add L dates times) (\<lambda>texts.
     and_then (to_datetime L texts) (\<lambda>labels.
     and_then (set_index d labels) (\<lambda>d1.
     and_then (facebook_prophet_filter L d1 TEMPERATURE FORECASTED_TEMPERATURE_FILE w)
       (\<lambda>(d2, interpolated_df, w1).
     and_then (set_index interpolated_df (index_of d2)) (\<lambda>interpolated.
     and_then (getitems interpolated [FORECAST]) (\<lambda>forecast.
     and_then (setitem_frame d2 [TEMPERATURE] forecast) (\<lambda>d3.
     and_then (normalize_frame L (rename d3 POWER LABEL) FEATURES QuantileTransformer w1)
       (\<lambda>(normalized, w2).
     and_then (setitem (where_index (\<lambda>t. ts_lt t CUTOFF_DATE) normalized) DATE_STAMP
                 (map Stamp (index_of (where_index (\<lambda>t. ts_lt t CUTOFF_DATE) normalized))))
       (\<lambda>self_df.
     and_then (getitems self_df FEATURES) (\<lambda>xs.
     and_then (train_test_split L ratio xs) (\<lambda>(train_X0, test_X0).
     and_then (getitems self_df LABELS) (\<lambda>ys.
     and_then (train_test_split L ratio ys) (\<lambda>(train_y0, test_y0).
     and_then (explore_data L self_df w2) (\<lambda>w3.
       Inr (d3,
            \<lparr>df_original = d1, transformer = QuantileTransformer, df = self_df,
             testing = where_index (\<lambda>t. ts_ge t CUTOFF_DATE) normalized,
             train_test_split_ratio = ratio, model = m,
             train_X = Frame train_X0, test_X = Frame test_X0,
             train_y = Frame train_y0, test_y = Frame test_y0,
             model_fit = None, history = None, future = None\<rparr>,
            w3)))))))))))))))))"


subsection \<open>Fitting\<close>

definition prophet_fit :: "'w library \<Rightarrow> forecaster \<Rightarrow> 'w \<Rightarrow> error + (forecaster \<times> 'w)" where
  "prophet_fit L self w =
     (case train_y self of
        Frame ty \<Rightarrow>
          and_then (setitem ty DATE_STAMP (map Stamp (index_of ty))) (\<lambda>past.
          and_then (value_fit L (model self) past w) (\<lambda>w1. Inr (self, w1)))
      | _ \<Rightarrow> Inl AttributeError)"

definition arima_fit :: "'w library \<Rightarrow> forecaster \<Rightarrow> 'w \<Rightarrow> error + (forecaster \<times> 'w)" where
  "arima_fit L self w =
     and_then (sarimax L (train_y self) SARIMAX_ORDER SARIMAX_SEASONAL_ORDER w) (\<lambda>(mdl, w1).
     and_then (model_fit_call L mdl w1) (\<lambda>(res, w2).
     and_then (summary L res w2) (\<lambda>w3.
     and_then (results_forecast L res w3) (\<lambda>w4.
       Inr (self\<lparr>model_fit := Some res\<rparr>, w4)))))"

definition var_fit :: "'w library \<Rightarrow> forecaster \<Rightarrow> 'w \<Rightarrow> error + (forecaster \<times> 'w)" where
  "var_fit L self w =
     (case train_X self of
        Frame tx \<Rightarrow>
          and_then (getitems tx FEATURES) (\<lambda>endog.
          and_then (var_model L (dropna endog) w) (\<lambda>(mdl, w1).
          and_then (model_fit_call L mdl w1) (\<lambda>(res, w2).
          and_then (summary L res w2) (\<lambda>w3.
            Inr (self\<lparr>model_fit := Some res\<rparr>, w3)))))
      | _ \<Rightarrow> Inl IndexError)"

definition lstm_fit_simple :: "'w library \<Rightarrow> forecaster \<Rightarrow> 'w \<Rightarrow> error + (forecaster \<times> 'w)" where
  "lstm_fit_simple L self w =
     and_then (value_fit_arrays L (model self) (train_X self) (train_y self) EPOCHS BATCH_SIZE
                 (test_X self, test_y self) w) (\<lambda>(history_object, w1).
       Inr (case history_object of
              None \<Rightarrow> self
            | Some h \<Rightarrow> self\<lparr>history := Some h\<rparr>, w1))"

definition fit :: "'w library \<Rightarrow> forecaster \<Rightarrow> 'w \<Rightarrow> error + (forecaster \<times> 'w)" where
  "fit L self w =
     (if model self = PROPHET then prophet_fit L self w
      else if model self = ARIMA then arima_fit L self w
      else if model self = VAR then var_fit L self w
      else if model self = LSTM then lstm_fit_simple L self w
      else Inl ValueError)"

subsection \<open>Predicting\<close>

definition arima_predict :: "'w library \<Rightarrow> forecaster \<Rightarrow> int \<Rightarrow> 'w \<Rightarrow> error + (table \<times> 'w)" where
  "arima_predict L self n w =
     (case train_y self of
        Frame ty \<Rightarrow>
          and_then (py_getitem (index_of ty) (- 1)) (\<lambda>end_stamp.
          and_then (py_getitem (index_of ty) (- n)) (\<lambda>start_stamp.
            case model_fit self of
              None \<Rightarrow> Inl AttributeError
            | Some res \<Rightarrow>
                results_predict L res (date_text start_stamp) (date_text end_stamp) True w))
      | _ \<Rightarrow> Inl AttributeError)"

definition var_predict :: "'w library \<Rightarrow> forecaster \<Rightarrow> int \<Rightarrow> 'w \<Rightarrow> error + (table \<times> 'w)" where
  "var_predict L self n w =
     (case model_fit self of
        None \<Rightarrow> Inl AttributeError
      | Some res \<Rightarrow>
          and_then (var_forecast L res n w) (\<lambda>(predicted_array, w1).
            if \<not> list_all (\<lambda>r. length r = length FEATURES) predicted_array then Inl ValueError
            else case test_y self of
              Frame ty \<Rightarrow>
                (let labels = slice_to (int (length predicted_array)) (index_of ty)
                 in if length labels \<noteq> length predicted_array then Inl ValueError
                    else Inr (Frame \<lparr>columns = FEATURES,
                                     rows = zip labels (map (zip FEATURES) predicted_array)\<rparr>, w1))
            | _ \<Rightarrow> Inl AttributeError))"

text \<open>
  \<^verbatim>\<open>predict\<close> returns the prediction; the object changes too, since the first
  branch stores \<^verbatim>\<open>self.future\<close>.
\<close>

definition predict ::
  "'w library \<Rightarrow> forecaster \<Rightarrow> 'w \<Rightarrow> error + (table \<times> forecaster \<times> 'w)" where
  "predict L self w =
     and_then
       (if model self = PROPHET
        then and_then (value_make_future_dataframe L (model self) DEFAULT_FUTURE_PERIODS
                         DEFAULT_FUTURE_FREQ False w) (\<lambda>f. Inr (self\<lparr>future := Some f\<rparr>))
        else Inr self) (\<lambda>self1.
     if model self1 = PROPHET then
       (case future self1 of
          None \<Rightarrow> Inl AttributeError
        | Some f \<Rightarrow>
            and_then (value_predict L (model self1) (Frame f) w) (\<lambda>(predicted, w1).
              case predicted of
                Frame p \<Rightarrow>
                  and_then (getitem p FORECAST) (\<lambda>yhat.
                  and_then (setitem p LABEL yhat) (\<lambda>p'. Inr (Frame p', self1, w1)))
              | _ \<Rightarrow> Inl IndexError))
     else if model self1 = ARIMA then
       and_then (arima_predict L self1 DEFAULT_FUTURE_PERIODS w) (\<lambda>(predicted, w1).
         Inr (predicted, self1, w1))
     else if model self1 = VAR then
       and_then (var_predict L self1 DEFAULT_FUTURE_PERIODS w) (\<lambda>(predicted, w1).
         Inr (predicted, self1, w1))
     else if model self1 = LSTM then
       and_then (value_predict L (model self1) (test_X self1) w) (\<lambda>(predicted, w1).
         Inr (predicted, self1, w1))
     else Inl ValueError)"


subsection \<open>Windowing\<close>

text \<open>
  \<^verbatim>\<open>sliding_window\<close> computes with a member of the enumeration
  \<^verbatim>\<open>Constants\<close> itself, not with the member's value, so the operands of its
  arithmetic are Python objects: an integer, or a member of an enumeration with its
  value. \<^verbatim>\<open>Constants\<close> is a plain \<^verbatim>\<open>Enum\<close>: its members take no part in
  arithmetic, are no array dimension and no sequence.
\<close>

datatype pyobj = IntObj int | Member string pyobj

definition WINDOW_TIME_STEPS :: pyobj where
  "WINDOW_TIME_STEPS = Member ''WINDOW_TIME_STEPS'' (IntObj 4)"

fun py_sub :: "pyobj \<Rightarrow> pyobj \<Rightarrow> error + pyobj" where
  "py_sub (IntObj a) (IntObj b) = Inr (IntObj (a - b))"
| "py_sub _ _ = Inl TypeError"

fun py_add :: "pyobj \<Rightarrow> pyobj \<Rightarrow> error + pyobj" where
  "py_add (IntObj a) (IntObj b) = Inr (IntObj (a + b))"
| "py_add _ _ = Inl TypeError"

fun as_int :: "pyobj \<Rightarrow> error + int" where
  "as_int (IntObj a) = Inr a"
| "as_int (Member _ _) = Inl TypeError"

text \<open>\<^verbatim>\<open>np.zeros((r, c))\<close>, \<^verbatim>\<open>range(n)\<close> and the call \<^verbatim>\<open>int(*x)\<close>.\<close>

definition np_zeros :: "pyobj \<Rightarrow> pyobj \<Rightarrow> error + cell list list" where
  "np_zeros r c =
     and_then (as_int r) (\<lambda>r'.
     and_then (as_int c) (\<lambda>c'.
       if r' < 0 \<or> c' < 0 then Inl ValueError
       else Inr (replicate (nat r') (replicate (nat c') (Num 0)))))"

definition py_range :: "pyobj \<Rightarrow> error + int list" where
  "py_range n = and_then (as_int n) (\<lambda>n'. Inr (map int [0..<nat n']))"

fun int_star :: "pyobj \<Rightarrow> error + int" where
  "int_star _ = Inl TypeError"

text \<open>A row of an array is overwritten by a sequence of its width, or by one value.\<close>

definition set_row :: "cell list list \<Rightarrow> int \<Rightarrow> cell list \<Rightarrow> error + cell list list" where
  "set_row a i vs =
     (if i < 0 \<or> int (length a) \<le> i then Inl IndexError
      else if length vs = length (a ! nat i) then Inr (a[nat i := vs])
      else if length vs = 1 then Inr (a[nat i := replicate (length (a ! nat i)) (hd vs)])
      else Inl ValueError)"

fun fill_labels ::
  "dataframe \<Rightarrow> pyobj \<Rightarrow> int list \<Rightarrow> cell list list \<Rightarrow> error + cell list list" where
  "fill_labels d window_size [] a = Inr a"
| "fill_labels d window_size (counter # rest) a =
     and_then (getitem d LABEL) (\<lambda>col.
     and_then (py_add (IntObj counter) window_size) (\<lambda>pos.
     and_then (as_int pos) (\<lambda>pos'.
     and_then (py_getitem col pos') (\<lambda>v.
     and_then (set_row a counter [v]) (\<lambda>a'.
       fill_labels d window_size rest a')))))"

fun fill_data ::
  "dataframe \<Rightarrow> pyobj \<Rightarrow> int list \<Rightarrow> cell list list \<Rightarrow> error + cell list list" where
  "fill_data d window_size [] a = Inr a"
| "fill_data d window_size (counter # rest) a =
     and_then (getitem d TEMPERATURE) (\<lambda>col.
     and_then (py_add (IntObj counter) window_size) (\<lambda>stop.
     and_then (as_int stop) (\<lambda>stop'.
     and_then (set_row a counter (slice_from counter (slice_to stop' col))) (\<lambda>a'.
       fill_data d window_size rest a'))))"

text \<open>
  The attributes that \<^verbatim>\<open>sliding_window\<close> adds to the object. The random
  permutation that the method draws is overwritten by the identity order before it is
  used, and is left out.
\<close>

record windowed = forecaster +
  val_idx :: "int list"
  shuf_data :: "cell list list"
  shuf_label :: "cell list list"
  train :: "cell list list"
  label :: "cell list list"
  train_size :: int
  val_size :: int

definition sliding_window :: "'w library \<Rightarrow> forecaster \<Rightarrow> error + windowed" where
  "sliding_window L self =
     (let length0 = IntObj (int (length (rows (df self))));
          window_size = WINDOW_TIME_STEPS
      in
      and_then (py_sub length0 window_size) (\<lambda>n1.
      and_then (np_zeros n1 window_size) (\<lambda>data0.
      and_then (py_sub length0 window_size) (\<lambda>n2.
      and_then (np_zeros n2 (IntObj 1)) (\<lambda>label0.
      and_then (py_sub length0 window_size) (\<lambda>n3.
      and_then (py_range n3) (\<lambda>counters.
      and_then (fill_labels (df self) window_size counters label0) (\<lambda>sliding_window_label.
      and_then (py_sub length0 window_size) (\<lambda>n4.
      and_then (py_range n4) (\<lambda>counters'.
      and_then (fill_data (df self) window_size counters' data0) (\<lambda>sliding_window_data.
      let len = int (length sliding_window_data);
          frac = TRAIN_TEST_SPLIT_RATIO
      in
      and_then (int_star (IntObj len)) (\<lambda>k.
      and_then (py_int (float_mul L frac len)) (\<lambda>cut.
      and_then (py_int (float_mul L (float_sub L (Finite 1) frac) len)) (\<lambda>rest.
        Inr (forecaster.extend
               (self\<lparr>train_X := Array2 (slice_to cut sliding_window_data),
                     train_y := Array2 (slice_to cut sliding_window_label),
                     test_X := Array2 (slice_from cut sliding_window_data),
                     test_y := Array2 (slice_from cut sliding_window_label)\<rparr>)
               \<lparr>val_idx = slice_from k (map int [0..<nat len]),
                shuf_data = sliding_window_data, shuf_label = sliding_window_label,
                train = sliding_window_data, label = sliding_window_label,
                train_size = cut, val_size = rest\<rparr>)))))))))))))))"


subsection \<open>Scoring\<close>

text \<open>
  \<^verbatim>\<open>evaluate\<close> reshapes \<^verbatim>\<open>self.test_X\<close> from three dimensions to two: a
  frame has no \<^verbatim>\<open>reshape\<close>, a two-dimensional array has no third dimension, and
  a three-dimensional one must have as many elements as the new shape. It then calls
  \<^verbatim>\<open>pd.concatenate\<close>; the pandas module has no attribute of that name (joining
  arrays is numpy's \<^verbatim>\<open>concatenate\<close>, joining frames is pandas' \<^verbatim>\<open>concat\<close>),
  so the lookup raises \<^verbatim>\<open>AttributeError\<close>.
\<close>

fun reshape_test_X :: "table \<Rightarrow> error + cell list list" where
  "reshape_test_X (Frame d) = Inl AttributeError"
| "reshape_test_X (Array2 a) = Inl IndexError"
| "reshape_test_X (Array3 a) =
     (if list_all (\<lambda>m. length m = 1) a then Inr (concat a)
      else if concat (concat a) = [] then Inr (map (\<lambda>m. []) a)
      else Inl ValueError)"

fun reshape_test_y :: "table \<Rightarrow> error + cell list list" where
  "reshape_test_y (Frame d) = Inl AttributeError"
| "reshape_test_y (Array2 a) = Inr (map (\<lambda>v. [v]) (concat a))"
| "reshape_test_y (Array3 a) =
     (if length (concat (concat a)) = length a then Inr (map (\<lambda>v. [v]) (concat (concat a)))
      else Inl ValueError)"

definition pd_concatenate :: "table \<Rightarrow> cell list list \<Rightarrow> error + cell list list" where
  "pd_concatenate a b = Inl AttributeError"

fun first_column :: "cell list list \<Rightarrow> error + cell list" where
  "first_column [] = Inr []"
| "first_column (r # rs) =
     and_then (py_getitem r 0) (\<lambda>v.
     and_then (first_column rs) (\<lambda>vs. Inr (v # vs)))"

text \<open>The method prints the score; the model returns what is printed.\<close>

definition evaluate :: "'w library \<Rightarrow> forecaster \<Rightarrow> 'w \<Rightarrow> error + (pyfloat \<times> 'w)" where
  "evaluate L self w =
     and_then (value_predict L (model self) (test_X self) w) (\<lambda>(yhat, w1).
     and_then (reshape_test_X (test_X self)) (\<lambda>test_X'.
     and_then (pd_concatenate yhat (map (drop 1) test_X')) (\<lambda>joined.
     and_then (inverse_transform L (transformer self) joined w1) (\<lambda>inverted.
     and_then (first_column inverted) (\<lambda>inv_yhat.
     and_then (reshape_test_y (test_y self)) (\<lambda>test_y'.
     and_then (pd_concatenate (Array2 test_y') (map (drop 1) test_X')) (\<lambda>joined'.
     and_then (inverse_transform L (transformer self) joined' w1) (\<lambda>inverted'.
     and_then (first_column inverted') (\<lambda>inv_y.
     and_then (mean_squared_error L inv_y inv_yhat) (\<lambda>mse.
     and_then (sqrt_float L mse) (\<lambda>rmse. Inr (rmse, w1))))))))))))"


section \<open>A test double of the libraries, and sample data\<close>

text \<open>
  The theorems below hold for every library record. To run the model on concrete data
  one record is fixed here, with no library state. Its float operations are exact (as
  the machine's are on the values used below), its series addition joins strings and
  propagates missing values, its \<^verbatim>\<open>to_datetime\<close> knows four quarter hours around
  the cutoff date and maps a missing value to \<^verbatim>\<open>NaT\<close>, its temperature filter
  forecasts 21 degrees everywhere, its scaling leaves the values as they are, and a
  prediction over a window of days has one row per day of the window.
\<close>

fun demo_float_mul :: "pyfloat \<Rightarrow> int \<Rightarrow> pyfloat" where
  "demo_float_mul (Finite q) n = Finite (q * of_int n)"
| "demo_float_mul x n = x"

fun demo_float_sub :: "pyfloat \<Rightarrow> pyfloat \<Rightarrow> pyfloat" where
  "demo_float_sub (Finite a) (Finite b) = Finite (a - b)"
| "demo_float_sub x y = NaN"

fun demo_cell_add :: "cell \<times> cell \<Rightarrow> cell" where
  "demo_cell_add (Str a, Str b) = Str (a @ b)"
| "demo_cell_add _ = Missing"

definition demo_series_add :: "cell list \<Rightarrow> cell list \<Rightarrow> error + cell list" where
  "demo_series_add xs ys = Inr (map demo_cell_add (zip xs ys))"

definition demo_clock :: "(string \<times> int) list" where
  "demo_clock =
     [(''2013-11-3023:30:00'', 16039 * 86400 + 84600),
      (''2013-11-3023:45:00'', 16039 * 86400 + 85500),
      (''2013-12-0100:00:00'', 16040 * 86400),
      (''2013-12-0100:15:00'', 16040 * 86400 + 900)]"

fun demo_to_datetime :: "cell list \<Rightarrow> error + timestamp list" where
  "demo_to_datetime [] = Inr []"
| "demo_to_datetime (c # cs) =
     and_then (case c of
                 Str s \<Rightarrow> (case map_of demo_clock s of
                             Some t \<Rightarrow> Inr (At t)
                           | None \<Rightarrow> Inl ValueError)
               | Missing \<Rightarrow> Inr NaT
               | _ \<Rightarrow> Inl TypeError) (\<lambda>t.
     and_then (demo_to_datetime cs) (\<lambda>ts. Inr (t # ts)))"

definition demo_filter ::
  "dataframe \<Rightarrow> string \<Rightarrow> string \<Rightarrow> unit \<Rightarrow> error + (dataframe \<times> dataframe \<times> unit)" where
  "demo_filter d c file w =
     Inr (d, \<lparr>columns = [''ds'', ''yhat''],
              rows = map (\<lambda>r. (fst r, [(''ds'', Stamp (fst r)), (''yhat'', Num 21)])) (rows d)\<rparr>, ())"

definition demo_value_predict :: "models \<Rightarrow> table \<Rightarrow> unit \<Rightarrow> error + (table \<times> unit)" where
  "demo_value_predict m t w =
     (case (m, t) of
        (PROPHET, Frame f) \<Rightarrow>
          Inr (Frame \<lparr>columns = columns f @ [''yhat''],
                      rows = map (\<lambda>r. (fst r, snd r @ [(''yhat'', Num 5)])) (rows f)\<rparr>, ())
      | (LSTM, _) \<Rightarrow> Inr (Array2 [[Num 1]], ())
      | _ \<Rightarrow> Inl TypeError)"

definition demo_future :: "models \<Rightarrow> int \<Rightarrow> string \<Rightarrow> bool \<Rightarrow> unit \<Rightarrow> error + dataframe" where
  "demo_future m n freq include_history w =
     (if m = PROPHET \<and> \<not> include_history
      then Inr \<lparr>columns = [''ds''],
                rows = [(At 0, [(''ds'', Stamp (At (16040 * 86400 + 900)))]),
                        (At 1, [(''ds'', Stamp (At (16040 * 86400 + 1800)))])]\<rparr>
      else Inl TypeError)"

fun demo_results_predict ::
  "handle \<Rightarrow> datekey \<Rightarrow> datekey \<Rightarrow> bool \<Rightarrow> unit \<Rightarrow> error + (table \<times> unit)" where
  "demo_results_predict h (Day a) (Day b) dynamic w =
     Inr (Frame \<lparr>columns = [''predicted_mean''],
                 rows = map (\<lambda>day. (At (day * 86400), [(''predicted_mean'', Num 0)])) [a..b]\<rparr>, ())"
| "demo_results_predict h _ _ dynamic w = Inl KeyError"

definition demo_library :: "unit library" where
  "demo_library =
     \<lparr>float_mul = demo_float_mul,
      float_sub = demo_float_sub,
      series_add = demo_series_add,
      to_datetime = demo_to_datetime,
      facebook_prophet_filter = demo_filter,
      normalize_frame = (\<lambda>d cs t w. Inr (d, ())),
      explore_data = (\<lambda>d w. Inr ()),
      value_fit = (\<lambda>m d w. if m = PROPHET then Inr () else Inl TypeError),
      value_fit_arrays = (\<lambda>m x y e b v w. if m = LSTM then Inr (Some 0, ()) else Inl TypeError),
      value_make_future_dataframe = demo_future,
      value_predict = demo_value_predict,
      sarimax = (\<lambda>t order seasonal w. Inr (1, ())),
      var_model = (\<lambda>d w. Inr (2, ())),
      model_fit_call = (\<lambda>h w. Inr (h + 10, ())),
      summary = (\<lambda>h w. Inr ()),
      results_forecast = (\<lambda>h w. Inr ()),
      results_predict = demo_results_predict,
      var_forecast = (\<lambda>h n w. Inr (replicate (nat n) [Num 0, Num 0], ())),
      inverse_transform = (\<lambda>t a w. Inr a),
      mean_squared_error = (\<lambda>a b. Inr (Finite 0)),
      sqrt_float = (\<lambda>x. Inr x)\<rparr>"

text \<open>
  Four readings a quarter of an hour apart, two on each side of the cutoff date; the
  second frame is the same with the date of the second reading missing.
\<close>

definition reading :: "int \<Rightarrow> cell \<Rightarrow> string \<Rightarrow> rat \<Rightarrow> cell \<Rightarrow> row" where
  "reading i date time kwh temperature =
     (At i, [(''date'', date), (''time'', Str time), (''actual_kwh'', Num kwh),
             (''actual_temperature'', temperature)])"

definition demo_frame :: dataframe where
  "demo_frame =
     \<lparr>columns = [''date'', ''time'', ''actual_kwh'', ''actual_temperature''],
      rows = [reading 0 (Str ''2013-11-30'') ''23:30:00'' 10 (Num 18),
              reading 1 (Str ''2013-11-30'') ''23:45:00'' 11 (Num 19),
              reading 2 (Str ''2013-12-01'') ''00:00:00'' 12 Missing,
              reading 3 (Str ''2013-12-01'') ''00:15:00'' 13 Missing]\<rparr>"

definition gap_frame :: dataframe where
  "gap_frame =
     \<lparr>columns = [''date'', ''time'', ''actual_kwh'', ''actual_temperature''],
      rows = [reading 0 (Str ''2013-11-30'') ''23:30:00'' 10 (Num 18),
              reading 1 Missing ''23:45:00'' 11 (Num 19),
              reading 2 (Str ''2013-12-01'') ''00:00:00'' 12 Missing,
              reading 3 (Str ''2013-12-01'') ''00:15:00'' 13 Missing]\<rparr>"


text \<open>
  The object that the constructor builds from the four readings with the split ratio 1
  (theorem \<open>init_demo_frame\<close> below), for each value of \<^verbatim>\<open>model\<close>, and the
  caller's frame as the constructor leaves it.
\<close>

definition scaled :: "int \<Rightarrow> string \<Rightarrow> string \<Rightarrow> rat \<Rightarrow> row" where
  "scaled t date time kwh =
     (At t, [(''date'', Str date), (''time'', Str time), (''y'', Num kwh),
             (''actual_temperature'', Num 21)])"

definition demo_frame_indexed :: dataframe where
  "demo_frame_indexed =
     \<lparr>columns = [''date'', ''time'', ''actual_kwh'', ''actual_temperature''],
      rows = [reading 1385854200 (Str ''2013-11-30'') ''23:30:00'' 10 (Num 18),
              reading 1385855100 (Str ''2013-11-30'') ''23:45:00'' 11 (Num 19),
              reading 1385856000 (Str ''2013-12-01'') ''00:00:00'' 12 Missing,
              reading 1385856900 (Str ''2013-12-01'') ''00:15:00'' 13 Missing]\<rparr>"

definition demo_frame_after :: dataframe where
  "demo_frame_after =
     \<lparr>columns = [''date'', ''time'', ''actual_kwh'', ''actual_temperature''],
      rows = [reading 1385854200 (Str ''2013-11-30'') ''23:30:00'' 10 (Num 21),
              reading 1385855100 (Str ''2013-11-30'') ''23:45:00'' 11 (Num 21),
              reading 1385856000 (Str ''2013-12-01'') ''00:00:00'' 12 (Num 21),
              reading 1385856900 (Str ''2013-12-01'') ''00:15:00'' 13 (Num 21)]\<rparr>"

definition sample_pool :: dataframe where
  "sample_pool =
     \<lparr>columns = [''date'', ''time'', ''y'', ''actual_temperature'', ''ds''],
      rows = map (\<lambda>r. (fst r, snd r @ [(''ds'', Stamp (fst r))]))
               [scaled 1385854200 ''2013-11-30'' ''23:30:00'' 10,
                scaled 1385855100 ''2013-11-30'' ''23:45:00'' 11]\<rparr>"

definition sample_testing :: dataframe where
  "sample_testing =
     \<lparr>columns = [''date'', ''time'', ''y'', ''actual_temperature''],
      rows = [scaled 1385856000 ''2013-12-01'' ''00:00:00'' 12,
              scaled 1385856900 ''2013-12-01'' ''00:15:00'' 13]\<rparr>"

definition sample_forecaster :: "models \<Rightarrow> forecaster" where
  "sample_forecaster m =
     \<lparr>df_original = demo_frame_indexed, transformer = QuantileTransformer,
      df = sample_pool, testing = sample_testing,
      train_test_split_ratio = Finite 1, model = m,
      train_X = Frame \<lparr>columns = [''y'', ''actual_temperature''],
                       rows = [(At 1385854200, [(''y'', Num 10), (''actual_temperature'', Num 21)]),
                               (At 1385855100, [(''y'', Num 11), (''actual_temperature'', Num 21)])]\<rparr>,
      test_X = Frame \<lparr>columns = [''y'', ''actual_temperature''], rows = []\<rparr>,
      train_y = Frame \<lparr>columns = [''y''],
                       rows = [(At 1385854200, [(''y'', Num 10)]),
                               (At 1385855100, [(''y'', Num 11)])]\<rparr>,
      test_y = Frame \<lparr>columns = [''y''], rows = []\<rparr>,
      model_fit = None, history = None, future = None\<rparr>"

text \<open>
  The same for the frame with the missing date: the second reading is labelled
  \<^verbatim>\<open>NaT\<close>.
\<close>

definition gap_frame_indexed :: dataframe where
  "gap_frame_indexed =
     \<lparr>columns = [''date'', ''time'', ''actual_kwh'', ''actual_temperature''],
      rows = [reading 1385854200 (Str ''2013-11-30'') ''23:30:00'' 10 (Num 18),
              (NaT, snd (reading 1 Missing ''23:45:00'' 11 (Num 19))),
              reading 1385856000 (Str ''2013-12-01'') ''00:00:00'' 12 Missing,
              reading 1385856900 (Str ''2013-12-01'') ''00:15:00'' 13 Missing]\<rparr>"

definition gap_frame_after :: dataframe where
  "gap_frame_after =
     \<lparr>columns = [''date'', ''time'', ''actual_kwh'', ''actual_temperature''],
      rows = [reading 1385854200 (Str ''2013-11-30'') ''23:30:00'' 10 (Num 21),
              (NaT, snd (reading 1 Missing ''23:45:00'' 11 (Num 21))),
              reading 1385856000 (Str ''2013-12-01'') ''00:00:00'' 12 (Num 21),
              reading 1385856900 (Str ''2013-12-01'') ''00:15:00'' 13 (Num 21)]\<rparr>"

definition gap_row :: row where
  "gap_row = (NaT, [(''date'', Missing), (''time'', Str ''23:45:00''), (''y'', Num 11),
                    (''actual_temperature'', Num 21)])"

definition gap_normalized :: dataframe where
  "gap_normalized =
     \<lparr>columns = [''date'', ''time'', ''y'', ''actual_temperature''],
      rows = [scaled 1385854200 ''2013-11-30'' ''23:30:00'' 10,
              gap_row,
              scaled 1385856000 ''2013-12-01'' ''00:00:00'' 12,
              scaled 1385856900 ''2013-12-01'' ''00:15:00'' 13]\<rparr>"

definition gap_forecaster :: forecaster where
  "gap_forecaster =
     \<lparr>df_original = gap_frame_indexed, transformer = QuantileTransformer,
      df = \<lparr>columns = [''date'', ''time'', ''y'', ''actual_temperature'', ''ds''],
             rows = map (\<lambda>r. (fst r, snd r @ [(''ds'', Stamp (fst r))]))
                      [scaled 1385854200 ''2013-11-30'' ''23:30:00'' 10]\<rparr>,
      testing = sample_testing,
      train_test_split_ratio = Finite 1, model = PROPHET,
      train_X = Frame \<lparr>columns = [''y'', ''actual_temperature''],
                       rows = [(At 1385854200, [(''y'', Num 10), (''actual_temperature'', Num 21)])]\<rparr>,
      test_X = Frame \<lparr>columns = [''y'', ''actual_temperature''], rows = []\<rparr>,
      train_y = Frame \<lparr>columns = [''y''], rows = [(At 1385854200, [(''y'', Num 10)])]\<rparr>,
      test_y = Frame \<lparr>columns = [''y''], rows = []\<rparr>,
      model_fit = None, history = None, future = None\<rparr>"

text \<open>
  The sample object after \<^verbatim>\<open>fit\<close> with the seasonal autoregressive model, the
  frame of future dates and the forecast that the double's decomposable model gives,
  and an object whose test data are arrays of three dimensions, as the sequence model
  takes them.
\<close>

definition fitted_arima :: forecaster where
  "fitted_arima = (sample_forecaster ARIMA)\<lparr>model_fit := Some 11\<rparr>"

definition demo_future_frame :: dataframe where
  "demo_future_frame =
     \<lparr>columns = [''ds''],
      rows = [(At 0, [(''ds'', Stamp (At (16040 * 86400 + 900)))]),
              (At 1, [(''ds'', Stamp (At (16040 * 86400 + 1800)))])]\<rparr>"

definition demo_forecast :: dataframe where
  "demo_forecast =
     \<lparr>columns = [''ds'', ''yhat'', ''y''],
      rows = [(At 0, [(''ds'', Stamp (At (16040 * 86400 + 900))), (''yhat'', Num 5), (''y'', Num 5)]),
              (At 1, [(''ds'', Stamp (At (16040 * 86400 + 1800))), (''yhat'', Num 5), (''y'', Num 5)])]\<rparr>"

definition windowed_lstm :: forecaster where
  "windowed_lstm =
     (sample_forecaster LSTM)
       \<lparr>train_X := Array3 [[[Num 10, Num 21]]], test_X := Array3 [[[Num 11, Num 21]]],
        train_y := Array2 [[Num 11]], test_y := Array2 [[Num 12]]\<rparr>"

definition three_readings :: dataframe where
  "three_readings = demo_frame\<lparr>rows := take 3 (rows demo_frame)\<rparr>"

section \<open>Properties\<close>

subsection \<open>Slices and the library double\<close>

lemma slice_to_from: "slice_to k xs @ slice_from k xs = xs"
  by (simp add: slice_to_def slice_from_def)

lemma slice_bound_nonneg: "0 \<le> k \<Longrightarrow> take (slice_bound (length xs) k) xs = take (nat k) xs"
  by (simp add: slice_bound_def min_def)

lemma slice_bound_nonneg_drop: "0 \<le> k \<Longrightarrow> drop (slice_bound (length xs) k) xs = drop (nat k) xs"
  by (simp add: slice_bound_def min_def)

lemma float_mul_demo_library [simp]: "float_mul demo_library = demo_float_mul"
  by (simp add: demo_library_def)

lemma floor_minus_three_halves: "\<lfloor>- (3 / 2) :: rat\<rfloor> = - 2"
  by (rule floor_unique) simp_all

lemma ceiling_minus_three_halves: "\<lceil>- (3 / 2) :: rat\<rceil> = - 1"
  by (rule ceiling_unique) simp_all

lemmas constant_defs = DATE_def TIME_def TEMPERATURE_def POWER_def LABEL_def FORECAST_def
  DATE_STAMP_def FEATURES_def LABELS_def FORECASTED_TEMPERATURE_FILE_def CUTOFF_DATE_def
  DEFAULT_FUTURE_PERIODS_def DEFAULT_FUTURE_FREQ_def

lemmas frame_defs = getitem_def getitems_def setitem_def set_index_def rename_def
  iloc_to_def iloc_from_def where_index_def index_of_def cell_of_def setitem_frame_def
  slice_to_def slice_from_def slice_bound_def

subsection \<open>Frames\<close>

lemma and_then_Inr: "and_then m f = Inr y \<longleftrightarrow> (\<exists>x. m = Inr x \<and> f x = Inr y)"
  by (cases m) auto

lemma map_snd_relabel:
  "length ls = length rs \<Longrightarrow> map (snd \<circ> (\<lambda>(l, r). (l, snd r))) (zip ls rs) = map snd rs"
  by (induction ls rs rule: list_induct2) simp_all

lemma map_fst_relabel:
  "length ls = length rs \<Longrightarrow> map (fst \<circ> (\<lambda>(l, r). (l, snd r))) (zip ls rs) = ls"
  by (induction ls rs rule: list_induct2) simp_all

lemma map_cell_relabel:
  "length ls = length rs \<Longrightarrow>
   map ((\<lambda>r. cell_of r c) \<circ> (\<lambda>(l, r). (l, snd r))) (zip ls rs) = map (\<lambda>r. cell_of r c) rs"
  by (induction ls rs rule: list_induct2) (simp_all add: cell_of_def)

lemma set_index_facts:
  assumes "set_index d ls = Inr d'"
  shows "columns d' = columns d" and "index_of d' = ls"
    and "map snd (rows d') = map snd (rows d)" and "getitem d' c = getitem d c"
    and "length (rows d') = length (rows d)"
  using assms
  by (auto simp: set_index_def index_of_def getitem_def map_snd_relabel map_fst_relabel
      map_cell_relabel split: if_splits)

lemma getitems_single:
  assumes "getitems d [c] = Inr f"
  shows "columns f = [c]" and "getitem f c = getitem d c"
  using assms
  by (auto simp: getitems_def getitem_def cell_of_def split: if_splits)

lemma map_cell_update_same:
  "length rs = length vs \<Longrightarrow>
   map ((\<lambda>r. cell_of r c) \<circ> (\<lambda>(r, v). (fst r, AList.update c v (snd r)))) (zip rs vs) = vs"
  by (induction rs vs rule: list_induct2) (simp_all add: cell_of_def update_conv')

lemma map_cell_update_other:
  "length rs = length vs \<Longrightarrow> c' \<noteq> c \<Longrightarrow>
   map ((\<lambda>r. cell_of r c') \<circ> (\<lambda>(r, v). (fst r, AList.update c v (snd r)))) (zip rs vs)
     = map (\<lambda>r. cell_of r c') rs"
  by (induction rs vs rule: list_induct2) (simp_all add: cell_of_def update_conv')

lemma map_fst_update:
  "length rs = length vs \<Longrightarrow>
   map (fst \<circ> (\<lambda>(r, v). (fst r, AList.update c v (snd r)))) (zip rs vs) = map fst rs"
  by (induction rs vs rule: list_induct2) simp_all

lemma setitem_facts:
  assumes "setitem d c vs = Inr d'"
  shows "getitem d' c = Inr vs" and "index_of d' = index_of d"
    and "c' \<noteq> c \<Longrightarrow> getitem d' c' = getitem d c'"
    and "length (rows d') = length (rows d)"
  using assms
  by (auto simp: setitem_def getitem_def index_of_def map_cell_update_same
      map_cell_update_other map_fst_update split: if_splits)

lemma setitem_frame_single:
  assumes "setitem_frame d [k] v = Inr d'" and "columns v = [c]"
  shows "\<exists>vs. getitem v c = Inr vs \<and> setitem d k vs = Inr d'"
  using assms by (auto simp: setitem_frame_def and_then_Inr)

subsection \<open>The steps of the constructor\<close>

lemma init_steps:
  assumes "init L d m ratio w = Inr (d', self, w')"
  obtains dates times texts labels d1 d2 interpolated_df w1 interpolated forecast
    normalized w2 self_df xs ys train_X0 test_X0 train_y0 test_y0
  where "getitem d DATE = Inr dates" and "getitem d TIME = Inr times"
    and "series_add L dates times = Inr texts" and "to_datetime L texts = Inr labels"
    and "set_index d labels = Inr d1"
    and "facebook_prophet_filter L d1 TEMPERATURE FORECASTED_TEMPERATURE_FILE w
           = Inr (d2, interpolated_df, w1)"
    and "set_index interpolated_df (index_of d2) = Inr interpolated"
    and "getitems interpolated [FORECAST] = Inr forecast"
    and "setitem_frame d2 [TEMPERATURE] forecast = Inr d'"
    and "normalize_frame L (rename d' POWER LABEL) FEATURES QuantileTransformer w1
           = Inr (normalized, w2)"
    and "setitem (where_index (\<lambda>t. ts_lt t CUTOFF_DATE) normalized) DATE_STAMP
           (map Stamp (index_of (where_index (\<lambda>t. ts_lt t CUTOFF_DATE) normalized)))
           = Inr self_df"
    and "getitems self_df FEATURES = Inr xs"
    and "train_test_split L ratio xs = Inr (train_X0, test_X0)"
    and "getitems self_df LABELS = Inr ys"
    and "train_test_split L ratio ys = Inr (train_y0, test_y0)"
    and "explore_data L self_df w2 = Inr w'"
    and "self = \<lparr>df_original = d1, transformer = QuantileTransformer, df = self_df,
             testing = where_index (\<lambda>t. ts_ge t CUTOFF_DATE) normalized,
             train_test_split_ratio = ratio, model = m,
             train_X = Frame train_X0, test_X = Frame test_X0,
             train_y = Frame train_y0, test_y = Frame test_y0,
             model_fit = None, history = None, future = None\<rparr>"
  using assms unfolding init_def
  by (auto simp: and_then_Inr split: prod.splits)

text \<open>The constructor on the four readings, and on the frame with the missing date.\<close>

lemma init_demo_frame:
  "init demo_library demo_frame m (Finite 1) () = Inr (demo_frame_after, sample_forecaster m, ())"
  by (simp add: init_def demo_library_def demo_frame_def demo_frame_after_def
      sample_forecaster_def sample_pool_def sample_testing_def demo_frame_indexed_def
      constant_defs frame_defs reading_def scaled_def demo_series_add_def demo_clock_def
      demo_filter_def train_test_split_def)

lemma init_gap_frame:
  "init demo_library gap_frame PROPHET (Finite 1) () = Inr (gap_frame_after, gap_forecaster, ())"
  by (simp add: init_def demo_library_def gap_frame_def gap_frame_after_def
      gap_forecaster_def sample_testing_def gap_frame_indexed_def
      constant_defs frame_defs reading_def scaled_def demo_series_add_def demo_clock_def
      demo_filter_def train_test_split_def)

subsection \<open>Splitting into train and test\<close>

text \<open>
  Claim C3, as the code has it. Let \<open>n\<close> be the number of rows of a frame and let the
  float product of the split ratio and \<open>n\<close> be a finite value \<open>q\<close>. Then
  \<^verbatim>\<open>train_test_split\<close> returns a pair (train, test) of frames with the columns of
  the input, test holds the rows that train does not, in the original order, and the
  two row lists put together are the rows of the input. When \<open>q\<close> is not negative,
  train is exactly the first \<open>\<lfloor>q\<rfloor>\<close> rows and test the remaining ones. (The code cuts
  at \<^verbatim>\<open>int(q)\<close>, which rounds toward zero: for a negative product it is not the
  floor, and a negative cut counts from the end.)
\<close>

theorem train_test_split_prefix_suffix:
  assumes "float_mul L ratio (int (length (rows d))) = Finite q"
  shows "\<exists>train test. train_test_split L ratio d = Inr (train, test)
           \<and> columns train = columns d \<and> columns test = columns d
           \<and> rows train @ rows test = rows d
           \<and> (0 \<le> q \<longrightarrow> rows train = take (nat \<lfloor>q\<rfloor>) (rows d)
                          \<and> rows test = drop (nat \<lfloor>q\<rfloor>) (rows d))"
  using assms
  by (simp add: train_test_split_def iloc_to_def iloc_from_def slice_to_from
      slice_to_def slice_from_def slice_bound_nonneg slice_bound_nonneg_drop)

text \<open>Half of four readings: the first two train, the last two test.\<close>

theorem train_test_split_prefix_suffix_witness:
  "float_mul demo_library (Finite (1 / 2)) (int (length (rows demo_frame))) = Finite 2
   \<and> (\<exists>train test. train_test_split demo_library (Finite (1 / 2)) demo_frame = Inr (train, test)
         \<and> rows train = take 2 (rows demo_frame) \<and> rows test = drop 2 (rows demo_frame)
         \<and> rows train @ rows test = rows demo_frame)"
proof -
  have h: "float_mul demo_library (Finite (1 / 2)) (int (length (rows demo_frame))) = Finite 2"
    by (simp add: demo_frame_def)
  from train_test_split_prefix_suffix [OF h] show ?thesis
    using h by auto
qed

text \<open>
  With the ratio \<open>- 1 / 2\<close> and three rows the product is \<open>- 3 / 2\<close>, whose floor is
  \<open>- 2\<close>; the code cuts at \<open>- 1\<close> and train holds the first two rows, which is
  neither the first \<open>- 2\<close> rows read as a count nor read as a Python slice bound.
\<close>

theorem train_test_split_floor_counterexample:
  "float_mul demo_library (Finite (- 1 / 2)) (int (length (rows three_readings))) = Finite (- 3 / 2)
   \<and> \<lfloor>- 3 / 2 :: rat\<rfloor> = - 2
   \<and> train_test_split demo_library (Finite (- 1 / 2)) three_readings
        = Inr (three_readings\<lparr>rows := take 2 (rows three_readings)\<rparr>,
               three_readings\<lparr>rows := drop 2 (rows three_readings)\<rparr>)
   \<and> take 2 (rows three_readings) \<noteq> take (nat (- 2)) (rows three_readings)
   \<and> take 2 (rows three_readings) \<noteq> slice_to (- 2) (rows three_readings)"
  by (simp add: three_readings_def demo_frame_def train_test_split_def iloc_to_def iloc_from_def
      slice_to_def slice_from_def slice_bound_def reading_def
      floor_minus_three_halves ceiling_minus_three_halves)

text \<open>A product that is no finite number makes the method raise.\<close>

lemma train_test_split_raises:
  "float_mul L ratio (int (length (rows d))) = NaN \<Longrightarrow> train_test_split L ratio d = Inl ValueError"
  "float_mul L ratio (int (length (rows d))) \<in> {PosInf, NegInf} \<Longrightarrow>
     train_test_split L ratio d = Inl OverflowError"
  by (auto simp: train_test_split_def)

subsection \<open>Windowing\<close>

text \<open>
  Claim C4 says that \<^verbatim>\<open>sliding_window\<close> produces one window of temperatures and
  one power label for each start position. The method never gets that far: on every
  object its first subtraction, of a member of \<^verbatim>\<open>Constants\<close> from an integer,
  raises \<^verbatim>\<open>TypeError\<close>.
\<close>

theorem sliding_window_raises: "sliding_window L self = Inl TypeError"
  by (simp add: sliding_window_def WINDOW_TIME_STEPS_def Let_def)

subsection \<open>Scoring\<close>

text \<open>
  Claim C6 says that \<^verbatim>\<open>evaluate\<close> reports the root mean squared error of the
  inversely transformed columns. On every object, library and library state the method
  raises instead and reports no score: whatever the prediction and the reshaping do,
  the next step looks up \<^verbatim>\<open>pd.concatenate\<close>.
\<close>

theorem evaluate_never_scores: "\<exists>e. evaluate L self w = Inl e"
proof (cases "value_predict L (model self) (test_X self) w")
  case (Inl e)
  then show ?thesis by (simp add: evaluate_def)
next
  case (Inr r)
  obtain yhat w1 where r: "r = (yhat, w1)" by (cases r)
  show ?thesis
  proof (cases "reshape_test_X (test_X self)")
    case (Inl e)
    with Inr r show ?thesis by (simp add: evaluate_def)
  next
    case (Inr a)
    with \<open>value_predict L (model self) (test_X self) w = Inr r\<close> r show ?thesis
      by (simp add: evaluate_def pd_concatenate_def)
  qed
qed


subsection \<open>The order of the constructor's pipeline\<close>

text \<open>
  Claim C1. Whenever the constructor returns, its steps ran in this order, each on the
  result of the one before: the index is built from the date and the time column and
  assigned to the input frame; the trend-decomposition filter interpolates the column
  \<^verbatim>\<open>actual_temperature\<close> of that frame and its forecast \<^verbatim>\<open>yhat\<close> overwrites
  the column; the power column \<^verbatim>\<open>actual_kwh\<close> is renamed to \<^verbatim>\<open>y\<close>; the
  columns \<^verbatim>\<open>['y', 'actual_temperature']\<close> of the renamed frame are normalized with
  a quantile transformer. The state of the libraries passes through the filter, the
  normalization and the final inspection only, and the object is left without a fit
  result: no forecasting model has been fitted.
\<close>

theorem init_pipeline_order:
  assumes "init L d m ratio w = Inr (d', self, w')"
  shows "\<exists>dates times texts labels d2 interpolated_df w1 yhat normalized w2.
           getitem d ''date'' = Inr dates \<and> getitem d ''time'' = Inr times
         \<and> series_add L dates times = Inr texts \<and> to_datetime L texts = Inr labels
         \<and> set_index d labels = Inr (df_original self)
         \<and> facebook_prophet_filter L (df_original self) ''actual_temperature''
              FORECASTED_TEMPERATURE_FILE w = Inr (d2, interpolated_df, w1)
         \<and> getitem interpolated_df ''yhat'' = Inr yhat
         \<and> setitem d2 ''actual_temperature'' yhat = Inr d'
         \<and> normalize_frame L (rename d' ''actual_kwh'' ''y'') [''y'', ''actual_temperature'']
              QuantileTransformer w1 = Inr (normalized, w2)
         \<and> explore_data L (df self) w2 = Inr w'
         \<and> model_fit self = None \<and> history self = None"
proof -
  from assms obtain dates times texts labels d1 d2 interpolated_df w1 interpolated forecast
    normalized w2 self_df xs ys train_X0 test_X0 train_y0 test_y0
  where s: "getitem d DATE = Inr dates" "getitem d TIME = Inr times"
      "series_add L dates times = Inr texts" "to_datetime L texts = Inr labels"
      "set_index d labels = Inr d1"
      "facebook_prophet_filter L d1 TEMPERATURE FORECASTED_TEMPERATURE_FILE w
           = Inr (d2, interpolated_df, w1)"
    and i: "set_index interpolated_df (index_of d2) = Inr interpolated"
    and f: "getitems interpolated [FORECAST] = Inr forecast"
    and a: "setitem_frame d2 [TEMPERATURE] forecast = Inr d'"
    and n: "normalize_frame L (rename d' POWER LABEL) FEATURES QuantileTransformer w1
           = Inr (normalized, w2)"
    and e: "explore_data L self_df w2 = Inr w'"
    and self: "self = \<lparr>df_original = d1, transformer = QuantileTransformer, df = self_df,
             testing = where_index (\<lambda>t. ts_ge t CUTOFF_DATE) normalized,
             train_test_split_ratio = ratio, model = m,
             train_X = Frame train_X0, test_X = Frame test_X0,
             train_y = Frame train_y0, test_y = Frame test_y0,
             model_fit = None, history = None, future = None\<rparr>"
    by (rule init_steps)
  from setitem_frame_single [OF a getitems_single(1) [OF f]]
  obtain yhat where y: "getitem forecast FORECAST = Inr yhat"
    and d': "setitem d2 TEMPERATURE yhat = Inr d'" by blast
  have "getitem interpolated_df FORECAST = Inr yhat"
    using y getitems_single(2) [OF f] set_index_facts(4) [OF i] by simp
  with s d' n e self show ?thesis
    by (simp add: constant_defs)
qed

theorem init_pipeline_order_witness:
  "init demo_library demo_frame PROPHET (Finite 1) ()
     = Inr (demo_frame_after, sample_forecaster PROPHET, ())
   \<and> (\<exists>dates times texts labels d2 interpolated_df w1 yhat normalized w2.
           getitem demo_frame ''date'' = Inr dates \<and> getitem demo_frame ''time'' = Inr times
         \<and> series_add demo_library dates times = Inr texts
         \<and> to_datetime demo_library texts = Inr labels
         \<and> set_index demo_frame labels = Inr (df_original (sample_forecaster PROPHET))
         \<and> facebook_prophet_filter demo_library (df_original (sample_forecaster PROPHET))
              ''actual_temperature'' FORECASTED_TEMPERATURE_FILE () = Inr (d2, interpolated_df, w1)
         \<and> getitem interpolated_df ''yhat'' = Inr yhat
         \<and> setitem d2 ''actual_temperature'' yhat = Inr demo_frame_after
         \<and> normalize_frame demo_library (rename demo_frame_after ''actual_kwh'' ''y'')
              [''y'', ''actual_temperature''] QuantileTransformer w1 = Inr (normalized, w2)
         \<and> explore_data demo_library (df (sample_forecaster PROPHET)) w2 = Inr ()
         \<and> model_fit (sample_forecaster PROPHET) = None
         \<and> history (sample_forecaster PROPHET) = None)"
  by (rule conjI [OF init_demo_frame init_pipeline_order [OF init_demo_frame]])

subsection \<open>What the constructor does to the caller's frame\<close>

text \<open>
  Claim C10. The constructor works on the caller's frame itself. Whenever it returns:
  the frame kept in \<^verbatim>\<open>self.df_original\<close> is the input frame under the new index,
  taken before the interpolation and before the renaming, so it has the columns of the
  input and every original value, those of power and temperature among them; the
  filter received that frame; and the caller's frame ends as the frame the filter left
  with its temperature column overwritten by the forecast values. If the filter
  leaves the frame as it got it, the caller's frame carries the new index and every
  column but the temperature has its original values.
\<close>

theorem init_mutates_caller_frame:
  assumes "init L d m ratio w = Inr (d', self, w')"
  shows "\<exists>labels d2 interpolated_df w1 yhat.
           set_index d labels = Inr (df_original self)
         \<and> index_of (df_original self) = labels
         \<and> columns (df_original self) = columns d
         \<and> map snd (rows (df_original self)) = map snd (rows d)
         \<and> getitem (df_original self) POWER = getitem d POWER
         \<and> getitem (df_original self) TEMPERATURE = getitem d TEMPERATURE
         \<and> facebook_prophet_filter L (df_original self) TEMPERATURE
              FORECASTED_TEMPERATURE_FILE w = Inr (d2, interpolated_df, w1)
         \<and> getitem interpolated_df FORECAST = Inr yhat
         \<and> setitem d2 TEMPERATURE yhat = Inr d'
         \<and> getitem d' TEMPERATURE = Inr yhat
         \<and> index_of d' = index_of d2
         \<and> (d2 = df_original self \<longrightarrow>
               index_of d' = labels
             \<and> (\<forall>c. c \<noteq> TEMPERATURE \<longrightarrow> getitem d' c = getitem d c))"
proof -
  from assms obtain labels d1 d2 interpolated_df w1 interpolated forecast
    normalized self_df train_X0 test_X0 train_y0 test_y0
  where l: "set_index d labels = Inr d1"
    and p: "facebook_prophet_filter L d1 TEMPERATURE FORECASTED_TEMPERATURE_FILE w
           = Inr (d2, interpolated_df, w1)"
    and i: "set_index interpolated_df (index_of d2) = Inr interpolated"
    and f: "getitems interpolated [FORECAST] = Inr forecast"
    and a: "setitem_frame d2 [TEMPERATURE] forecast = Inr d'"
    and self: "self = \<lparr>df_original = d1, transformer = QuantileTransformer, df = self_df,
             testing = where_index (\<lambda>t. ts_ge t CUTOFF_DATE) normalized,
             train_test_split_ratio = ratio, model = m,
             train_X = Frame train_X0, test_X = Frame test_X0,
             train_y = Frame train_y0, test_y = Frame test_y0,
             model_fit = None, history = None, future = None\<rparr>"
    by (rule init_steps)
  from setitem_frame_single [OF a getitems_single(1) [OF f]]
  obtain yhat where y: "getitem forecast FORECAST = Inr yhat"
    and d': "setitem d2 TEMPERATURE yhat = Inr d'" by blast
  have y': "getitem interpolated_df FORECAST = Inr yhat"
    using y getitems_single(2) [OF f] set_index_facts(4) [OF i] by simp
  have orig: "df_original self = d1" using self by simp
  have frame: "d2 = d1 \<longrightarrow> index_of d' = labels
             \<and> (\<forall>c. c \<noteq> TEMPERATURE \<longrightarrow> getitem d' c = getitem d c)"
    using setitem_facts(2,3) [OF d'] set_index_facts(2,4) [OF l] by simp
  have c1: "index_of d1 = labels" and c2: "columns d1 = columns d"
    and c3: "map snd (rows d1) = map snd (rows d)"
    and c4: "getitem d1 POWER = getitem d POWER"
    and c5: "getitem d1 TEMPERATURE = getitem d TEMPERATURE"
    using set_index_facts [OF l] by simp_all
  have c6: "getitem d' TEMPERATURE = Inr yhat" and c7: "index_of d' = index_of d2"
    using setitem_facts(1,2) [OF d'] by simp_all
  show ?thesis
    unfolding orig
    using l c1 c2 c3 c4 c5 p y' d' c6 c7 frame
    apply -
    apply (rule exI [of _ labels])
    apply (rule exI [of _ d2])
    apply (rule exI [of _ interpolated_df])
    apply (rule exI [of _ w1])
    apply (rule exI [of _ yhat])
    by (intro conjI) simp_all
qed

theorem init_mutates_caller_frame_witness:
  "init demo_library demo_frame ARIMA (Finite 1) ()
     = Inr (demo_frame_after, sample_forecaster ARIMA, ())
   \<and> getitem demo_frame TEMPERATURE = Inr [Num 18, Num 19, Missing, Missing]
   \<and> getitem (df_original (sample_forecaster ARIMA)) TEMPERATURE
       = Inr [Num 18, Num 19, Missing, Missing]
   \<and> getitem demo_frame_after TEMPERATURE = Inr [Num 21, Num 21, Num 21, Num 21]
   \<and> index_of demo_frame = [At 0, At 1, At 2, At 3]
   \<and> index_of demo_frame_after = [At 1385854200, At 1385855100, At 1385856000, At 1385856900]
   \<and> (\<exists>labels d2 interpolated_df w1 yhat.
         set_index demo_frame labels = Inr (df_original (sample_forecaster ARIMA))
       \<and> facebook_prophet_filter demo_library (df_original (sample_forecaster ARIMA)) TEMPERATURE
            FORECASTED_TEMPERATURE_FILE () = Inr (d2, interpolated_df, w1)
       \<and> getitem interpolated_df FORECAST = Inr yhat
       \<and> setitem d2 TEMPERATURE yhat = Inr demo_frame_after)"
proof -
  have vals: "getitem demo_frame TEMPERATURE = Inr [Num 18, Num 19, Missing, Missing]"
    "getitem (df_original (sample_forecaster ARIMA)) TEMPERATURE
       = Inr [Num 18, Num 19, Missing, Missing]"
    "getitem demo_frame_after TEMPERATURE = Inr [Num 21, Num 21, Num 21, Num 21]"
    "index_of demo_frame = [At 0, At 1, At 2, At 3]"
    "index_of demo_frame_after = [At 1385854200, At 1385855100, At 1385856000, At 1385856900]"
    by (simp_all add: demo_frame_def demo_frame_after_def sample_forecaster_def
        demo_frame_indexed_def reading_def getitem_def cell_of_def index_of_def TEMPERATURE_def)
  from init_mutates_caller_frame [OF init_demo_frame [of ARIMA]]
  have "\<exists>labels d2 interpolated_df w1 yhat.
         set_index demo_frame labels = Inr (df_original (sample_forecaster ARIMA))
       \<and> facebook_prophet_filter demo_library (df_original (sample_forecaster ARIMA)) TEMPERATURE
            FORECASTED_TEMPERATURE_FILE () = Inr (d2, interpolated_df, w1)
       \<and> getitem interpolated_df FORECAST = Inr yhat
       \<and> setitem d2 TEMPERATURE yhat = Inr demo_frame_after"
    by blast
  with vals init_demo_frame [of ARIMA] show ?thesis by blast
qed

subsection \<open>The cutoff date\<close>

lemma cutoff_counts:
  "length (filter (\<lambda>r. ts_lt (fst r) (At c)) rs) + length (filter (\<lambda>r. ts_ge (fst r) (At c)) rs)
     = length (filter (\<lambda>r. fst r \<noteq> NaT) rs)"
proof (induction rs)
  case Nil
  show ?case by simp
next
  case (Cons r rs)
  then show ?case by (cases "fst r") auto
qed

lemma cutoff_exclusive: "\<not> (ts_lt t (At c) \<and> ts_ge t (At c))"
  by (cases t) auto

lemma cutoff_exhaustive: "t \<noteq> NaT \<Longrightarrow> ts_lt t (At c) \<or> ts_ge t (At c)"
  by (cases t) auto

text \<open>
  Claim C9, as the code has it. Whenever the constructor returns, the normalized frame
  is partitioned by the cutoff date 2013-12-01: \<^verbatim>\<open>self.df\<close> holds, in order and with
  a new column \<^verbatim>\<open>ds\<close>, exactly the rows whose index is strictly before the cutoff;
  \<^verbatim>\<open>self.testing\<close> holds exactly the rows whose index is on or after it; no row
  qualifies for both, and every row whose index is a timestamp qualifies for one, so
  that the two together hold as many rows as the normalized frame has rows with an
  index other than \<^verbatim>\<open>NaT\<close>. The four train and test attributes are split from
  \<^verbatim>\<open>self.df\<close>.
\<close>

theorem init_cutoff_partition:
  assumes "init L d m ratio w = Inr (d', self, w')"
  shows "\<exists>normalized w1 w2.
           normalize_frame L (rename d' POWER LABEL) FEATURES QuantileTransformer w1
             = Inr (normalized, w2)
         \<and> setitem (where_index (\<lambda>t. ts_lt t CUTOFF_DATE) normalized) DATE_STAMP
             (map Stamp (filter (\<lambda>t. ts_lt t CUTOFF_DATE) (index_of normalized))) = Inr (df self)
         \<and> index_of (df self) = filter (\<lambda>t. ts_lt t CUTOFF_DATE) (index_of normalized)
         \<and> (\<forall>c. c \<noteq> DATE_STAMP \<longrightarrow>
               getitem (df self) c = getitem (where_index (\<lambda>t. ts_lt t CUTOFF_DATE) normalized) c)
         \<and> testing self = where_index (\<lambda>t. ts_ge t CUTOFF_DATE) normalized
         \<and> (\<forall>r \<in> set (rows normalized).
               \<not> (ts_lt (fst r) CUTOFF_DATE \<and> ts_ge (fst r) CUTOFF_DATE))
         \<and> (\<forall>r \<in> set (rows normalized).
               fst r \<noteq> NaT \<longrightarrow> ts_lt (fst r) CUTOFF_DATE \<or> ts_ge (fst r) CUTOFF_DATE)
         \<and> length (rows (df self)) + length (rows (testing self))
             = length (filter (\<lambda>r. fst r \<noteq> NaT) (rows normalized))
         \<and> (\<exists>xs ys train_X0 test_X0 train_y0 test_y0.
               getitems (df self) FEATURES = Inr xs
             \<and> train_test_split L ratio xs = Inr (train_X0, test_X0)
             \<and> getitems (df self) LABELS = Inr ys
             \<and> train_test_split L ratio ys = Inr (train_y0, test_y0)
             \<and> train_X self = Frame train_X0 \<and> test_X self = Frame test_X0
             \<and> train_y self = Frame train_y0 \<and> test_y self = Frame test_y0)"
proof -
  from assms obtain w1 normalized w2 self_df xs ys train_X0 test_X0 train_y0 test_y0 d1
  where n: "normalize_frame L (rename d' POWER LABEL) FEATURES QuantileTransformer w1
           = Inr (normalized, w2)"
    and s: "setitem (where_index (\<lambda>t. ts_lt t CUTOFF_DATE) normalized) DATE_STAMP
           (map Stamp (index_of (where_index (\<lambda>t. ts_lt t CUTOFF_DATE) normalized)))
           = Inr self_df"
    and t: "getitems self_df FEATURES = Inr xs"
      "train_test_split L ratio xs = Inr (train_X0, test_X0)"
      "getitems self_df LABELS = Inr ys"
      "train_test_split L ratio ys = Inr (train_y0, test_y0)"
    and self: "self = \<lparr>df_original = d1, transformer = QuantileTransformer, df = self_df,
             testing = where_index (\<lambda>t. ts_ge t CUTOFF_DATE) normalized,
             train_test_split_ratio = ratio, model = m,
             train_X = Frame train_X0, test_X = Frame test_X0,
             train_y = Frame train_y0, test_y = Frame test_y0,
             model_fit = None, history = None, future = None\<rparr>"
    by (rule init_steps)
  have idx: "index_of (where_index (\<lambda>t. ts_lt t CUTOFF_DATE) normalized)
               = filter (\<lambda>t. ts_lt t CUTOFF_DATE) (index_of normalized)"
    by (simp add: index_of_def where_index_def filter_map comp_def)
  have pool: "df self = self_df" and test: "testing self = where_index (\<lambda>t. ts_ge t CUTOFF_DATE) normalized"
    using self by simp_all
  have len: "length (rows self_df) + length (rows (where_index (\<lambda>t. ts_ge t CUTOFF_DATE) normalized))
             = length (filter (\<lambda>r. fst r \<noteq> NaT) (rows normalized))"
    using setitem_facts(4) [OF s] cutoff_counts [of 1385856000 "rows normalized"]
    by (simp add: where_index_def CUTOFF_DATE_def)
  have parts: "train_X self = Frame train_X0 \<and> test_X self = Frame test_X0
             \<and> train_y self = Frame train_y0 \<and> test_y self = Frame test_y0"
    using self by simp
  have s': "setitem (where_index (\<lambda>t. ts_lt t CUTOFF_DATE) normalized) DATE_STAMP
             (map Stamp (filter (\<lambda>t. ts_lt t CUTOFF_DATE) (index_of normalized))) = Inr self_df"
    using s idx by simp
  have i': "index_of self_df = filter (\<lambda>t. ts_lt t CUTOFF_DATE) (index_of normalized)"
    using setitem_facts(2) [OF s] idx by simp
  have g: "\<forall>c. c \<noteq> DATE_STAMP \<longrightarrow>
               getitem self_df c = getitem (where_index (\<lambda>t. ts_lt t CUTOFF_DATE) normalized) c"
    using setitem_facts(3) [OF s] by simp
  have ex: "\<forall>r \<in> set (rows normalized).
               \<not> (ts_lt (fst r) CUTOFF_DATE \<and> ts_ge (fst r) CUTOFF_DATE)"
    using cutoff_exclusive by (simp add: CUTOFF_DATE_def)
  have cov: "\<forall>r \<in> set (rows normalized).
               fst r \<noteq> NaT \<longrightarrow> ts_lt (fst r) CUTOFF_DATE \<or> ts_ge (fst r) CUTOFF_DATE"
    using cutoff_exhaustive by (simp add: CUTOFF_DATE_def)
  have split: "\<exists>xs ys train_X0 test_X0 train_y0 test_y0.
               getitems self_df FEATURES = Inr xs
             \<and> train_test_split L ratio xs = Inr (train_X0, test_X0)
             \<and> getitems self_df LABELS = Inr ys
             \<and> train_test_split L ratio ys = Inr (train_y0, test_y0)
             \<and> train_X self = Frame train_X0 \<and> test_X self = Frame test_X0
             \<and> train_y self = Frame train_y0 \<and> test_y self = Frame test_y0"
    using t parts by blast
  show ?thesis
    unfolding pool test
    using n s' i' g ex cov len split
    apply -
    apply (rule exI [of _ normalized])
    apply (rule exI [of _ w1])
    apply (rule exI [of _ w2])
    by (intro conjI) simp_all
qed

theorem init_cutoff_partition_witness:
  "init demo_library demo_frame VAR (Finite 1) ()
     = Inr (demo_frame_after, sample_forecaster VAR, ())
   \<and> index_of (df (sample_forecaster VAR)) = [At 1385854200, At 1385855100]
   \<and> index_of (testing (sample_forecaster VAR)) = [At 1385856000, At 1385856900]
   \<and> (\<exists>normalized w1 w2.
         normalize_frame demo_library (rename demo_frame_after POWER LABEL) FEATURES
           QuantileTransformer w1 = Inr (normalized, w2)
       \<and> index_of (df (sample_forecaster VAR))
           = filter (\<lambda>t. ts_lt t CUTOFF_DATE) (index_of normalized)
       \<and> testing (sample_forecaster VAR) = where_index (\<lambda>t. ts_ge t CUTOFF_DATE) normalized
       \<and> length (rows (df (sample_forecaster VAR))) + length (rows (testing (sample_forecaster VAR)))
           = length (filter (\<lambda>r. fst r \<noteq> NaT) (rows normalized)))"
proof -
  have vals: "index_of (df (sample_forecaster VAR)) = [At 1385854200, At 1385855100]"
    "index_of (testing (sample_forecaster VAR)) = [At 1385856000, At 1385856900]"
    by (simp_all add: sample_forecaster_def sample_pool_def sample_testing_def scaled_def
        index_of_def)
  from init_cutoff_partition [OF init_demo_frame [of VAR]]
  have "\<exists>normalized w1 w2.
         normalize_frame demo_library (rename demo_frame_after POWER LABEL) FEATURES
           QuantileTransformer w1 = Inr (normalized, w2)
       \<and> index_of (df (sample_forecaster VAR))
           = filter (\<lambda>t. ts_lt t CUTOFF_DATE) (index_of normalized)
       \<and> testing (sample_forecaster VAR) = where_index (\<lambda>t. ts_ge t CUTOFF_DATE) normalized
       \<and> length (rows (df (sample_forecaster VAR))) + length (rows (testing (sample_forecaster VAR)))
           = length (filter (\<lambda>r. fst r \<noteq> NaT) (rows normalized))"
    by blast
  with vals init_demo_frame [of VAR] show ?thesis by blast
qed

text \<open>
  A reading without a date gets the index \<^verbatim>\<open>NaT\<close>, which is neither before the
  cutoff nor on or after it: of the four rows of the normalized frame, one is in
  \<^verbatim>\<open>self.df\<close>, two are in \<^verbatim>\<open>self.testing\<close> and the one without a date is in
  neither.
\<close>

theorem init_cutoff_cover_counterexample:
  "init demo_library gap_frame PROPHET (Finite 1) ()
     = Inr (gap_frame_after, gap_forecaster, ())
   \<and> normalize_frame demo_library (rename gap_frame_after POWER LABEL) FEATURES
        QuantileTransformer () = Inr (gap_normalized, ())
   \<and> gap_row \<in> set (rows gap_normalized)
   \<and> fst gap_row \<notin> set (index_of (df gap_forecaster))
   \<and> gap_row \<notin> set (rows (testing gap_forecaster))
   \<and> length (rows gap_normalized) = 4
   \<and> length (rows (df gap_forecaster)) + length (rows (testing gap_forecaster)) = 3"
proof -
  have "normalize_frame demo_library (rename gap_frame_after POWER LABEL) FEATURES
        QuantileTransformer () = Inr (gap_normalized, ())"
    by (simp add: demo_library_def gap_frame_after_def gap_normalized_def rename_def
        reading_def scaled_def gap_row_def POWER_def LABEL_def)
  moreover have "gap_row \<in> set (rows gap_normalized)"
    "fst gap_row \<notin> set (index_of (df gap_forecaster))"
    "gap_row \<notin> set (rows (testing gap_forecaster))"
    "length (rows gap_normalized) = 4"
    "length (rows (df gap_forecaster)) + length (rows (testing gap_forecaster)) = 3"
    by (simp_all add: gap_normalized_def gap_forecaster_def gap_row_def sample_testing_def
        scaled_def index_of_def)
  ultimately show ?thesis using init_gap_frame by blast
qed


subsection \<open>Runs on the library double\<close>

lemma sample_model [simp]: "model (sample_forecaster m) = m"
  by (simp add: sample_forecaster_def)

lemma demo_fit_runs:
  "prophet_fit demo_library (sample_forecaster PROPHET) () = Inr (sample_forecaster PROPHET, ())"
  "arima_fit demo_library (sample_forecaster ARIMA) () = Inr (fitted_arima, ())"
  "var_fit demo_library (sample_forecaster VAR) ()
     = Inr ((sample_forecaster VAR)\<lparr>model_fit := Some 12\<rparr>, ())"
  "lstm_fit_simple demo_library (sample_forecaster LSTM) ()
     = Inr ((sample_forecaster LSTM)\<lparr>history := Some 0\<rparr>, ())"
  by (simp_all add: prophet_fit_def arima_fit_def var_fit_def lstm_fit_simple_def
      fitted_arima_def sample_forecaster_def demo_library_def constant_defs frame_defs
      dropna_def)

lemma demo_predict_prophet:
  "predict demo_library (sample_forecaster PROPHET) ()
     = Inr (Frame demo_forecast, (sample_forecaster PROPHET)\<lparr>future := Some demo_future_frame\<rparr>, ())"
  by (simp add: predict_def sample_forecaster_def demo_library_def demo_future_def
      demo_value_predict_def demo_forecast_def demo_future_frame_def constant_defs frame_defs)

lemma demo_predict_lstm:
  "predict demo_library windowed_lstm () = Inr (Array2 [[Num 1]], windowed_lstm, ())"
  by (simp add: predict_def windowed_lstm_def sample_forecaster_def demo_library_def
      demo_value_predict_def)

lemma demo_arima_predict:
  "arima_predict demo_library fitted_arima 2 ()
     = Inr (Frame \<lparr>columns = [''predicted_mean''],
                   rows = [(At (16039 * 86400), [(''predicted_mean'', Num 0)])]\<rparr>, ())"
  by (simp add: arima_predict_def fitted_arima_def sample_forecaster_def demo_library_def
      py_getitem_def index_of_def upto.simps)

text \<open>
  With test data of three dimensions and a model whose prediction succeeds,
  \<^verbatim>\<open>evaluate\<close> gets as far as \<^verbatim>\<open>pd.concatenate\<close>.
\<close>

lemma demo_evaluate: "evaluate demo_library windowed_lstm () = Inl AttributeError"
  by (simp add: evaluate_def windowed_lstm_def sample_forecaster_def demo_library_def
      demo_value_predict_def pd_concatenate_def)

subsection \<open>One interface for four models\<close>

text \<open>
  Claim C2. For each of the four values of \<^verbatim>\<open>Models\<close>, \<^verbatim>\<open>fit\<close> is exactly the
  fitting routine of that model (\<^verbatim>\<open>prophet_fit\<close>, \<^verbatim>\<open>arima_fit\<close>,
  \<^verbatim>\<open>var_fit\<close>, \<^verbatim>\<open>lstm_fit_simple\<close>) and \<^verbatim>\<open>predict\<close> is exactly the
  prediction path of that model (the future frame and the model's own prediction,
  \<^verbatim>\<open>arima_predict\<close>, \<^verbatim>\<open>var_predict\<close>, the network's prediction on the test
  data); for every other value of \<^verbatim>\<open>self.model\<close> both raise \<^verbatim>\<open>ValueError\<close>.
\<close>

theorem fit_predict_dispatch:
  "(model self = PROPHET \<longrightarrow>
      fit L self w = prophet_fit L self w
      \<and> predict L self w =
          and_then (value_make_future_dataframe L PROPHET DEFAULT_FUTURE_PERIODS
                      DEFAULT_FUTURE_FREQ False w) (\<lambda>f.
          and_then (value_predict L PROPHET (Frame f) w) (\<lambda>(predicted, w1).
            case predicted of
              Frame p \<Rightarrow>
                and_then (getitem p FORECAST) (\<lambda>yhat.
                and_then (setitem p LABEL yhat) (\<lambda>p'.
                  Inr (Frame p', self\<lparr>future := Some f\<rparr>, w1)))
            | _ \<Rightarrow> Inl IndexError)))
   \<and> (model self = ARIMA \<longrightarrow>
      fit L self w = arima_fit L self w
      \<and> predict L self w =
          and_then (arima_predict L self DEFAULT_FUTURE_PERIODS w) (\<lambda>(predicted, w1).
            Inr (predicted, self, w1)))
   \<and> (model self = VAR \<longrightarrow>
      fit L self w = var_fit L self w
      \<and> predict L self w =
          and_then (var_predict L self DEFAULT_FUTURE_PERIODS w) (\<lambda>(predicted, w1).
            Inr (predicted, self, w1)))
   \<and> (model self = LSTM \<longrightarrow>
      fit L self w = lstm_fit_simple L self w
      \<and> predict L self w =
          and_then (value_predict L LSTM (test_X self) w) (\<lambda>(predicted, w1).
            Inr (predicted, self, w1)))
   \<and> (model self \<notin> {PROPHET, ARIMA, VAR, LSTM} \<longrightarrow>
      fit L self w = Inl ValueError \<and> predict L self w = Inl ValueError)"
proof (intro conjI impI)
  assume m: "model self = PROPHET"
  show "fit L self w = prophet_fit L self w" using m by (simp add: fit_def)
  show "predict L self w =
          and_then (value_make_future_dataframe L PROPHET DEFAULT_FUTURE_PERIODS
                      DEFAULT_FUTURE_FREQ False w) (\<lambda>f.
          and_then (value_predict L PROPHET (Frame f) w) (\<lambda>(predicted, w1).
            case predicted of
              Frame p \<Rightarrow>
                and_then (getitem p FORECAST) (\<lambda>yhat.
                and_then (setitem p LABEL yhat) (\<lambda>p'.
                  Inr (Frame p', self\<lparr>future := Some f\<rparr>, w1)))
            | _ \<Rightarrow> Inl IndexError))"
  proof (cases "value_make_future_dataframe L PROPHET DEFAULT_FUTURE_PERIODS
                      DEFAULT_FUTURE_FREQ False w")
    case (Inl e)
    with m show ?thesis by (simp add: predict_def)
  next
    case (Inr f)
    with m show ?thesis by (simp add: predict_def)
  qed
next
  assume m: "model self = ARIMA"
  show "fit L self w = arima_fit L self w" using m by (simp add: fit_def)
  show "predict L self w =
          and_then (arima_predict L self DEFAULT_FUTURE_PERIODS w) (\<lambda>(predicted, w1).
            Inr (predicted, self, w1))"
    using m by (simp add: predict_def)
next
  assume m: "model self = VAR"
  show "fit L self w = var_fit L self w" using m by (simp add: fit_def)
  show "predict L self w =
          and_then (var_predict L self DEFAULT_FUTURE_PERIODS w) (\<lambda>(predicted, w1).
            Inr (predicted, self, w1))"
    using m by (simp add: predict_def)
next
  assume m: "model self = LSTM"
  show "fit L self w = lstm_fit_simple L self w" using m by (simp add: fit_def)
  show "predict L self w =
          and_then (value_predict L LSTM (test_X self) w) (\<lambda>(predicted, w1).
            Inr (predicted, self, w1))"
    using m by (simp add: predict_def)
next
  assume m: "model self \<notin> {PROPHET, ARIMA, VAR, LSTM}"
  show "fit L self w = Inl ValueError" using m by (simp add: fit_def)
  show "predict L self w = Inl ValueError" using m by (simp add: predict_def)
qed

text \<open>One object for each of the four models, and one with a model that is not listed.\<close>

theorem fit_predict_dispatch_witness:
  "model (sample_forecaster PROPHET) = PROPHET
   \<and> fit demo_library (sample_forecaster PROPHET) () = Inr (sample_forecaster PROPHET, ())
   \<and> model (sample_forecaster ARIMA) = ARIMA
   \<and> fit demo_library (sample_forecaster ARIMA) () = Inr (fitted_arima, ())
   \<and> model (sample_forecaster VAR) = VAR
   \<and> fit demo_library (sample_forecaster VAR) ()
       = Inr ((sample_forecaster VAR)\<lparr>model_fit := Some 12\<rparr>, ())
   \<and> model (sample_forecaster LSTM) = LSTM
   \<and> fit demo_library (sample_forecaster LSTM) ()
       = Inr ((sample_forecaster LSTM)\<lparr>history := Some 0\<rparr>, ())
   \<and> model (sample_forecaster (Unlisted ''ridge'')) \<notin> {PROPHET, ARIMA, VAR, LSTM}
   \<and> fit demo_library (sample_forecaster (Unlisted ''ridge'')) () = Inl ValueError
   \<and> predict demo_library (sample_forecaster (Unlisted ''ridge'')) () = Inl ValueError"
  using fit_predict_dispatch [of "sample_forecaster PROPHET" demo_library "()"]
    fit_predict_dispatch [of "sample_forecaster ARIMA" demo_library "()"]
    fit_predict_dispatch [of "sample_forecaster VAR" demo_library "()"]
    fit_predict_dispatch [of "sample_forecaster LSTM" demo_library "()"]
    fit_predict_dispatch [of "sample_forecaster (Unlisted ''ridge'')" demo_library "()"]
  by (simp add: demo_fit_runs)

subsection \<open>The decomposable model predicts the future\<close>

text \<open>
  The method returns whenever the two calls into the model succeed and the prediction
  has a forecast column.
\<close>

lemma prophet_predict_returns:
  assumes "model self = PROPHET"
    and "value_make_future_dataframe L PROPHET DEFAULT_FUTURE_PERIODS DEFAULT_FUTURE_FREQ False w
           = Inr f"
    and "value_predict L PROPHET (Frame f) w = Inr (Frame p, w')"
    and "FORECAST \<in> set (columns p)"
  shows "\<exists>p'. predict L self w = Inr (Frame p', self\<lparr>future := Some f\<rparr>, w')"
  using assms by (simp add: predict_def getitem_def setitem_def)

text \<open>
  Claim C8. With the decomposable trend and seasonality model, whenever
  \<^verbatim>\<open>predict\<close> returns, it has asked the model for a frame of
  \<^verbatim>\<open>DEFAULT_FUTURE_PERIODS\<close> = 4 * 24 * 10 future periods at the frequency
  \<^verbatim>\<open>15T\<close> (15 minutes) with the history excluded, has stored that frame in
  \<^verbatim>\<open>self.future\<close>, and returns the model's prediction on it with the forecast
  column \<^verbatim>\<open>yhat\<close> copied into the label column \<^verbatim>\<open>y\<close>: in the returned frame
  the two columns are equal.
\<close>

theorem prophet_predict_future_only:
  assumes "model self = PROPHET" and "predict L self w = Inr (predicted, self', w')"
  shows "\<exists>f p yhat p'.
           value_make_future_dataframe L PROPHET (4 * 24 * 10) ''15T'' False w = Inr f
         \<and> self' = self\<lparr>future := Some f\<rparr>
         \<and> value_predict L PROPHET (Frame f) w = Inr (Frame p, w')
         \<and> getitem p ''yhat'' = Inr yhat
         \<and> setitem p ''y'' yhat = Inr p'
         \<and> predicted = Frame p'
         \<and> getitem p' ''y'' = Inr yhat \<and> getitem p' ''yhat'' = Inr yhat
         \<and> index_of p' = index_of p"
proof -
  from assms obtain f r where f: "value_make_future_dataframe L PROPHET DEFAULT_FUTURE_PERIODS
        DEFAULT_FUTURE_FREQ False w = Inr f"
    and r: "value_predict L PROPHET (Frame f) w = Inr r"
    and rest: "(case r of (predicted, w1) \<Rightarrow>
              case predicted of
                Frame p \<Rightarrow>
                  and_then (getitem p FORECAST) (\<lambda>yhat.
                  and_then (setitem p LABEL yhat) (\<lambda>p'.
                    Inr (Frame p', self\<lparr>future := Some f\<rparr>, w1)))
              | _ \<Rightarrow> Inl IndexError) = Inr (predicted, self', w')"
    by (auto simp: predict_def and_then_Inr)
  obtain t w1 where rp: "r = (t, w1)" by (cases r)
  from rest rp obtain p where t: "t = Frame p" by (cases t) auto
  from rest rp t obtain yhat p' where y: "getitem p FORECAST = Inr yhat"
    and s: "setitem p LABEL yhat = Inr p'"
    and out: "predicted = Frame p'" "self' = self\<lparr>future := Some f\<rparr>" "w' = w1"
    by (auto simp: and_then_Inr)
  have "getitem p' FORECAST = Inr yhat"
    using setitem_facts(3) [OF s, of FORECAST] y by (simp add: constant_defs)
  with f r rp t y s out setitem_facts(1,2) [OF s] show ?thesis
    by (simp add: constant_defs)
qed

theorem prophet_predict_future_only_witness:
  "model (sample_forecaster PROPHET) = PROPHET
   \<and> predict demo_library (sample_forecaster PROPHET) ()
       = Inr (Frame demo_forecast,
              (sample_forecaster PROPHET)\<lparr>future := Some demo_future_frame\<rparr>, ())
   \<and> getitem demo_forecast ''y'' = Inr [Num 5, Num 5]
   \<and> getitem demo_forecast ''yhat'' = Inr [Num 5, Num 5]
   \<and> (\<exists>f p yhat.
         value_make_future_dataframe demo_library PROPHET (4 * 24 * 10) ''15T'' False () = Inr f
       \<and> value_predict demo_library PROPHET (Frame f) () = Inr (Frame p, ())
       \<and> getitem p ''yhat'' = Inr yhat
       \<and> getitem demo_forecast ''y'' = Inr yhat \<and> getitem demo_forecast ''yhat'' = Inr yhat)"
proof -
  have vals: "getitem demo_forecast ''y'' = Inr [Num 5, Num 5]"
    "getitem demo_forecast ''yhat'' = Inr [Num 5, Num 5]"
    by (simp_all add: demo_forecast_def getitem_def cell_of_def)
  from prophet_predict_future_only [OF sample_model demo_predict_prophet]
  have "\<exists>f p yhat.
         value_make_future_dataframe demo_library PROPHET (4 * 24 * 10) ''15T'' False () = Inr f
       \<and> value_predict demo_library PROPHET (Frame f) () = Inr (Frame p, ())
       \<and> getitem p ''yhat'' = Inr yhat
       \<and> getitem demo_forecast ''y'' = Inr yhat \<and> getitem demo_forecast ''yhat'' = Inr yhat"
    by blast
  with vals demo_predict_prophet show ?thesis by simp
qed

subsection \<open>The seasonal autoregressive model predicts inside the training data\<close>

lemma py_getitem_last:
  "xs \<noteq> [] \<Longrightarrow> py_getitem xs (- 1) = Inr (last xs)"
  by (cases xs rule: rev_cases) (simp_all add: py_getitem_def nth_append)

lemma py_getitem_from_end:
  assumes "0 < n" and "n \<le> int (length xs)"
  shows "py_getitem xs (- n) = Inr (xs ! (length xs - nat n))"
proof -
  have "nat (int (length xs) - n) = length xs - nat n" using assms by simp
  with assms show ?thesis by (simp add: py_getitem_def)
qed

text \<open>
  Claim C5 says that the predictions of the seasonal autoregressive model lie after
  the end of the training data. The code asks the fit result for something else: with
  \<open>n\<close> periods (\<^verbatim>\<open>predict\<close> passes \<^verbatim>\<open>DEFAULT_FUTURE_PERIODS\<close>) and at least
  \<open>n\<close> training rows, \<^verbatim>\<open>arima_predict\<close> is the library's prediction over the
  window that starts on the day of the \<open>n\<close>-th training row from the end and ends on
  the day of the last training row. Both bounds are days of training rows, and the
  end of the window, midnight of that day, is not after the last training timestamp.
\<close>

theorem arima_predict_in_sample:
  assumes "train_y self = Frame ty" and "model_fit self = Some res"
    and "0 < n" and "n \<le> int (length (rows ty))"
  shows "arima_predict L self n w
           = results_predict L res (date_text (index_of ty ! (length (rows ty) - nat n)))
               (date_text (last (index_of ty))) True w
         \<and> index_of ty ! (length (rows ty) - nat n) \<in> set (index_of ty)
         \<and> last (index_of ty) \<in> set (index_of ty)
         \<and> (\<forall>t. last (index_of ty) = At t \<longrightarrow>
               (\<exists>day. date_text (last (index_of ty)) = Day day \<and> day * 86400 \<le> t))"
proof -
  have len: "length (index_of ty) = length (rows ty)" by (simp add: index_of_def)
  with assms have ne: "index_of ty \<noteq> []" by auto
  have a: "py_getitem (index_of ty) (- 1) = Inr (last (index_of ty))"
    using ne by (rule py_getitem_last)
  have b: "py_getitem (index_of ty) (- n) = Inr (index_of ty ! (length (rows ty) - nat n))"
    using py_getitem_from_end [of n "index_of ty"] assms len by simp
  have c: "index_of ty ! (length (rows ty) - nat n) \<in> set (index_of ty)"
    using assms len by (intro nth_mem) auto
  have d: "\<forall>t. last (index_of ty) = At t \<longrightarrow>
               (\<exists>day. date_text (last (index_of ty)) = Day day \<and> day * 86400 \<le> t)"
  proof (intro allI impI)
    fix t assume "last (index_of ty) = At t"
    moreover have "t div 86400 * 86400 \<le> t" by simp
    ultimately show "\<exists>day. date_text (last (index_of ty)) = Day day \<and> day * 86400 \<le> t"
      by simp
  qed
  show ?thesis
    using assms a b c d ne by (simp add: arima_predict_def)
qed

text \<open>
  Two training rows, the last at 23:45 on 2013-11-30, and two periods: the window asked
  for is that one day, and the prediction the double returns for it is stamped
  2013-11-30 00:00, before both training rows.
\<close>

theorem arima_predict_in_sample_witness:
  "train_y fitted_arima
     = Frame \<lparr>columns = [''y''],
              rows = [(At 1385854200, [(''y'', Num 10)]), (At 1385855100, [(''y'', Num 11)])]\<rparr>
   \<and> model_fit fitted_arima = Some 11
   \<and> arima_predict demo_library fitted_arima 2 ()
       = results_predict demo_library 11 (Day 16039) (Day 16039) True ()
   \<and> arima_predict demo_library fitted_arima 2 ()
       = Inr (Frame \<lparr>columns = [''predicted_mean''],
                     rows = [(At (16039 * 86400), [(''predicted_mean'', Num 0)])]\<rparr>, ())
   \<and> (16039 * 86400 :: int) < 1385854200"
proof -
  have ty: "train_y fitted_arima
     = Frame \<lparr>columns = [''y''],
              rows = [(At 1385854200, [(''y'', Num 10)]), (At 1385855100, [(''y'', Num 11)])]\<rparr>"
    and res: "model_fit fitted_arima = Some 11"
    by (simp_all add: fitted_arima_def sample_forecaster_def)
  from arima_predict_in_sample [OF ty res, of 2 demo_library "()"]
  have "arima_predict demo_library fitted_arima 2 ()
       = results_predict demo_library 11 (Day 16039) (Day 16039) True ()"
    by (simp add: index_of_def)
  with ty res demo_arima_predict show ?thesis by simp
qed

end
